theory Spec2Isabelle
  imports Main "HOL-Library.AList"
begin

text \<open>
  A shallow embedding of the Futurepedia scraper (\<^verbatim>\<open>scrapers/futurepedia_scraper.py\<close>): the
  translation client, the HTTP helpers under their retry decorator, the listing of a
  category page by page, the enrichment of a tool into a record, the persistence of records
  and of the category CSV, and the run of a category end to end. The network, the HTML
  parser, the URL library, the JSON decoder and the file system are parameters of the
  model, gathered in one environment; every function that calls the network returns the
  calls it made next to its result, and an exception is a result \<open>Inl\<close>.
\<close>

section \<open>Strings\<close>

text \<open>
  A Python \<^verbatim>\<open>str\<close> is modelled as the \<^typ>\<open>string\<close> of the bytes of its UTF-8
  encoding, so on ASCII text there is one \<^typ>\<open>char\<close> per character and the string methods
  below are Python's. Off ASCII the model is coarser than the source: \<open>lower\<close> leaves
  every byte above 127 alone where Python lowers the letter, \<open>strip\<close> removes ASCII white
  space only where Python also removes the other Unicode spaces, and a slice counts bytes
  where Python counts characters. The properties below that mention these operations are
  either stated for them as symbols or evaluated on ASCII text.
\<close>

definition lower_char :: "char \<Rightarrow> char" where
  \<comment> \<open>the letters A to Z are lowered; Python's \<^verbatim>\<open>lower\<close> on an ASCII character\<close>
  "lower_char c =
     (let n = of_char c :: nat in if 65 \<le> n \<and> n \<le> 90 then char_of (n + 32) else c)"

definition lower :: "string \<Rightarrow> string" where
  \<comment> \<open>\<^verbatim>\<open>s.lower()\<close>\<close>
  "lower s = map lower_char s"

definition is_space :: "char \<Rightarrow> bool" where
  \<comment> \<open>the ASCII characters for which \<^verbatim>\<open>str.isspace\<close> holds: tab, the line breaks, the
      separators 28 to 31 and the blank; the Unicode spaces beyond ASCII are not covered\<close>
  "is_space c = (let n = of_char c :: nat in (9 \<le> n \<and> n \<le> 13) \<or> (28 \<le> n \<and> n \<le> 32))"

definition lstrip :: "string \<Rightarrow> string" where
  "lstrip s = dropWhile is_space s"

definition rstrip :: "string \<Rightarrow> string" where
  "rstrip s = rev (dropWhile is_space (rev s))"

definition strip :: "string \<Rightarrow> string" where
  \<comment> \<open>\<^verbatim>\<open>s.strip()\<close>\<close>
  "strip s = rstrip (lstrip s)"

definition strip_chars :: "char \<Rightarrow> string \<Rightarrow> string" where
  \<comment> \<open>\<^verbatim>\<open>s.strip(c)\<close> for a single character \<open>c\<close>\<close>
  "strip_chars c s = rev (dropWhile (\<lambda>x. x = c) (rev (dropWhile (\<lambda>x. x = c) s)))"

definition rstrip_chars :: "char \<Rightarrow> string \<Rightarrow> string" where
  \<comment> \<open>\<^verbatim>\<open>s.rstrip(c)\<close> for a single character \<open>c\<close>\<close>
  "rstrip_chars c s = rev (dropWhile (\<lambda>x. x = c) (rev s))"

definition startswith :: "string \<Rightarrow> string \<Rightarrow> bool" where
  \<comment> \<open>\<^verbatim>\<open>s.startswith(w)\<close>\<close>
  "startswith s w = (take (length w) s = w)"

fun str_contains :: "string \<Rightarrow> string \<Rightarrow> bool" where
  \<comment> \<open>\<^verbatim>\<open>w in s\<close>: \<open>w\<close> occurs in \<open>s\<close> as a contiguous substring\<close>
  "str_contains [] w = (w = [])"
| "str_contains (c # cs) w = (startswith (c # cs) w \<or> str_contains cs w)"

fun join :: "string \<Rightarrow> string list \<Rightarrow> string" where
  \<comment> \<open>\<^verbatim>\<open>sep.join(xs)\<close>\<close>
  "join sep [] = []"
| "join sep [x] = x"
| "join sep (x # y # ys) = x @ sep @ join sep (y # ys)"

fun last_segment_acc :: "string \<Rightarrow> string \<Rightarrow> string" where
  "last_segment_acc acc [] = acc"
| "last_segment_acc acc (c # cs) =
     (if c = CHR ''/'' then last_segment_acc [] cs else last_segment_acc (acc @ [c]) cs)"

definition last_segment :: "string \<Rightarrow> string" where
  \<comment> \<open>\<^verbatim>\<open>s.rstrip("/").split("/")[-1]\<close>: what follows the last slash, once the trailing
      slashes are gone\<close>
  "last_segment s = last_segment_acc [] (rstrip_chars CHR ''/'' s)"

section \<open>The appType classifier\<close>

definition any_in :: "string list \<Rightarrow> string \<Rightarrow> bool" where
  \<comment> \<open>\<^verbatim>\<open>any(w in text for w in ws)\<close>\<close>
  "any_in ws text = list_ex (\<lambda>w. str_contains text w) ws"

definition app_type_text :: "string \<Rightarrow> string \<Rightarrow> string list \<Rightarrow> string" where
  \<comment> \<open>\<^verbatim>\<open>f"{title} {description} {' '.join(tags)}".lower()\<close>\<close>
  "app_type_text title description tags =
     lower (title @ '' '' @ description @ '' '' @ join '' '' tags)"

definition determine_app_type :: "string \<Rightarrow> string \<Rightarrow> string list \<Rightarrow> string" where
  "determine_app_type title description tags =
     (let text = app_type_text title description tags in
      if any_in [''assistant'', ''chatbot'', ''chat''] text then ''assistant''
      else if any_in [''generator'', ''create'', ''generate''] text then ''generator''
      else if any_in [''research'', ''search'', ''find''] text then ''research''
      else if any_in [''write'', ''writing'', ''text''] text then ''writing''
      else if any_in [''image'', ''photo'', ''picture''] text then ''image''
      else if any_in [''video'', ''movie''] text then ''video''
      else if any_in [''audio'', ''music'', ''sound''] text then ''audio''
      else if any_in [''code'', ''programming'', ''development''] text then ''code''
      else ''other'')"

section \<open>JSON values, errors and the environment\<close>

text \<open>
  What \<^verbatim>\<open>json.loads\<close> and \<^verbatim>\<open>resp.json()\<close> return. An object is the list of its
  members in insertion order, keys distinct. Python's \<^verbatim>\<open>None\<close> is \<open>JNull\<close>.
\<close>

datatype json =
  JNull | JBool bool | JNum int | JStr string | JArr "json list" | JObj "(string \<times> json) list"

datatype error =
  RequestError | TypeError | AttributeError | ValueError | KeyError | IndexError
  | JSONDecodeError | OSError

fun truthy :: "json \<Rightarrow> bool" where
  \<comment> \<open>Python's truth value of a decoded JSON value\<close>
  "truthy JNull = False"
| "truthy (JBool b) = b"
| "truthy (JNum n) = (n \<noteq> 0)"
| "truthy (JStr s) = (s \<noteq> [])"
| "truthy (JArr xs) = (xs \<noteq> [])"
| "truthy (JObj kvs) = (kvs \<noteq> [])"

definition py_or :: "json \<Rightarrow> json \<Rightarrow> json" where
  \<comment> \<open>\<^verbatim>\<open>a or b\<close>\<close>
  "py_or a b = (if truthy a then a else b)"

definition bind_err :: "error + 'a \<Rightarrow> ('a \<Rightarrow> error + 'b) \<Rightarrow> error + 'b" where
  \<comment> \<open>sequencing: an exception raised by the first step is the result\<close>
  "bind_err m f = (case m of Inl e \<Rightarrow> Inl e | Inr x \<Rightarrow> f x)"

fun subscript :: "json \<Rightarrow> string \<Rightarrow> error + json" where
  \<comment> \<open>\<^verbatim>\<open>d[k]\<close> with a string key: KeyError on a dict without the key, TypeError on
      anything that is not a dict\<close>
  "subscript (JObj kvs) k = (case map_of kvs k of None \<Rightarrow> Inl KeyError | Some v \<Rightarrow> Inr v)"
| "subscript _ k = Inl TypeError"

fun dict_get :: "json \<Rightarrow> string \<Rightarrow> error + json" where
  \<comment> \<open>\<^verbatim>\<open>d.get(k)\<close>: only a dict has the method\<close>
  "dict_get (JObj kvs) k = (case map_of kvs k of None \<Rightarrow> Inr JNull | Some v \<Rightarrow> Inr v)"
| "dict_get _ k = Inl AttributeError"

fun str_strip :: "json \<Rightarrow> error + string" where
  \<comment> \<open>\<^verbatim>\<open>v.strip()\<close>: only a string has the method\<close>
  "str_strip (JStr s) = Inr (strip s)"
| "str_strip _ = Inl AttributeError"

fun py_iter :: "json \<Rightarrow> error + json list" where
  \<comment> \<open>the elements a \<^verbatim>\<open>for\<close> loop over the value visits: the items of a list, the keys
      of a dict, the characters of a string; other values are not iterable\<close>
  "py_iter (JArr xs) = Inr xs"
| "py_iter (JObj kvs) = Inr (map (\<lambda>kv. JStr (fst kv)) kvs)"
| "py_iter (JStr s) = Inr (map (\<lambda>c. JStr [c]) s)"
| "py_iter _ = Inl TypeError"

fun py_in :: "string \<Rightarrow> json \<Rightarrow> error + bool" where
  \<comment> \<open>\<^verbatim>\<open>k in v\<close> for a string \<open>k\<close>: key of a dict, item of a list, substring of a
      string\<close>
  "py_in k (JObj kvs) = Inr (k \<in> set (map fst kvs))"
| "py_in k (JArr xs) = Inr (JStr k \<in> set xs)"
| "py_in k (JStr s) = Inr (str_contains s k)"
| "py_in k _ = Inl TypeError"

text \<open>
  The network calls a run makes, in order, with the pauses of the retry decorator between
  two attempts (in milliseconds). The random politeness delay after a successful call is
  not recorded.
\<close>

datatype call = HttpGet string | FetchFoxPost string | OpenRouterPost string | Backoff nat

type_synonym 'a traced = "(error + 'a) \<times> call list"

definition bind_tr :: "'a traced \<Rightarrow> ('a \<Rightarrow> 'b traced) \<Rightarrow> 'b traced" where
  \<comment> \<open>sequencing of calls that may raise: the trace of the second follows the first's\<close>
  "bind_tr m f =
     (case m of
        (Inl e, tr) \<Rightarrow> (Inl e, tr)
      | (Inr x, tr) \<Rightarrow> (case f x of (r, tr') \<Rightarrow> (r, tr @ tr')))"

definition lift_tr :: "error + 'a \<Rightarrow> 'a traced" where
  \<comment> \<open>a step that makes no call\<close>
  "lift_tr m = (m, [])"

record tool_info =
  ti_name :: string
  ti_url :: string
  ti_slug :: string
  ti_image_url :: string
  ti_short_description :: string
  ti_category :: string

text \<open>
  What BeautifulSoup selects from a listing anchor and from a detail page. The selection
  itself is the library's; the model takes its outcome and follows the source from there.
\<close>

record anchor =
  a_href :: "string option"  \<comment> \<open>\<^verbatim>\<open>a.get("href")\<close>\<close>
  a_heading :: "string option"  \<comment> \<open>stripped text of the first h2, h3 or h4 inside\<close>
  a_text :: string  \<comment> \<open>\<^verbatim>\<open>a.get_text(strip=True)\<close>\<close>
  a_img_src :: "string option"  \<comment> \<open>\<^verbatim>\<open>src\<close> of the first img inside, when there is one\<close>
  a_p :: "string option"  \<comment> \<open>stripped text of the first p inside\<close>

record detail_page =
  dp_title :: "string option"  \<comment> \<open>stripped text of the first h1, else of title\<close>
  dp_descs :: "string option list"
    \<comment> \<open>for each description selector in order: the element's \<^verbatim>\<open>content\<close> (a meta) or
        text, when the selector matches; an absent \<^verbatim>\<open>content\<close> is the empty string\<close>
  dp_redirs :: "string option list"
    \<comment> \<open>for each link selector in order: the \<^verbatim>\<open>href\<close> of the match\<close>
  dp_pricings :: "string option list"
    \<comment> \<open>for each pricing selector in order: the stripped text of the match\<close>
  dp_tags :: "string list list"
    \<comment> \<open>for each tag selector in order: the stripped texts of all matches\<close>
  dp_og_image :: "string option"  \<comment> \<open>\<^verbatim>\<open>content\<close> of the og:image meta\<close>

datatype write_outcome = Written | OpenFails | DumpFails

record env =
  fetchfox_api_key :: string  \<comment> \<open>\<^verbatim>\<open>Config.FETCHFOX_API_KEY\<close>\<close>
  openrouter_api_key :: string  \<comment> \<open>\<^verbatim>\<open>Config.OPENROUTER_API_KEY\<close>\<close>
  http_get :: "string \<Rightarrow> nat \<Rightarrow> error + string"
    \<comment> \<open>\<^verbatim>\<open>session.get(url)\<close> and \<^verbatim>\<open>raise_for_status\<close> at the given attempt (from 0): the
        body, or the exception\<close>
  fetchfox_post :: "string \<Rightarrow> nat \<Rightarrow> error + json"
    \<comment> \<open>the POST to FetchFox for a URL at the given attempt, \<^verbatim>\<open>raise_for_status\<close> and
        \<^verbatim>\<open>resp.json()\<close>\<close>
  openrouter_post :: "string \<Rightarrow> (string \<times> string) list \<Rightarrow> error + json"
    \<comment> \<open>the POST to OpenRouter for a language and a payload, \<^verbatim>\<open>raise_for_status\<close> and
        \<^verbatim>\<open>resp.json()\<close>\<close>
  json_loads :: "string \<Rightarrow> json option"  \<comment> \<open>\<^verbatim>\<open>json.loads\<close>; \<open>None\<close> when it raises\<close>
  dict_update_seq :: "(string \<times> json) list \<Rightarrow> json list \<Rightarrow> error + (string \<times> json) list"
    \<comment> \<open>\<^verbatim>\<open>dict.update\<close> with a non-empty list of key-value pairs in place of a mapping\<close>
  urljoin_base :: "string \<Rightarrow> string"  \<comment> \<open>\<^verbatim>\<open>urljoin(Config.BASE_URL, href)\<close>\<close>
  query_to :: "string \<Rightarrow> string option"
    \<comment> \<open>the first value of the query parameter \<^verbatim>\<open>to\<close> of a URL (\<^verbatim>\<open>urlparse\<close>, \<^verbatim>\<open>parse_qs\<close>);
        \<open>None\<close> when there is none or the parse raises\<close>
  soup_has_next :: "string \<Rightarrow> bool"  \<comment> \<open>\<^verbatim>\<open>_has_next_page\<close> of the parsed body\<close>
  soup_anchors :: "string \<Rightarrow> anchor list"  \<comment> \<open>the anchors to \<^verbatim>\<open>/tool/\<close> of the parsed body\<close>
  soup_detail :: "string \<Rightarrow> detail_page"  \<comment> \<open>the selections on a parsed detail page\<close>
  json_write :: "string \<Rightarrow> write_outcome"  \<comment> \<open>what writing the record of a slug does\<close>
  csv_open :: "string \<Rightarrow> bool"  \<comment> \<open>whether the CSV of a category can be opened for writing\<close>
  as_completed :: "tool_info list \<Rightarrow> tool_info list"
    \<comment> \<open>the order in which the submitted tasks complete\<close>

definition MAX_PAGES_PER_CATEGORY :: nat where
  "MAX_PAGES_PER_CATEGORY = 200"

definition CONN_RETRIES :: nat where
  "CONN_RETRIES = 3"

section \<open>The translation client\<close>

definition passthrough :: "(string \<times> string) list \<Rightarrow> string \<Rightarrow> json" where
  \<comment> \<open>\<^verbatim>\<open>{k: f"[TRANSLATE-{target_lang}] {v}" for k, v in payload_en.items()}\<close>\<close>
  "passthrough payload_en target_lang =
     JObj (map (\<lambda>kv. (fst kv, JStr (''[TRANSLATE-'' @ target_lang @ ''] '' @ snd kv))) payload_en)"

definition message_content :: "json \<Rightarrow> error + string" where
  \<comment> \<open>\<^verbatim>\<open>data["choices"][0]["message"]["content"]\<close>, which must be a string for
      \<^verbatim>\<open>text.strip()\<close>\<close>
  "message_content data =
     bind_err (subscript data ''choices'') (\<lambda>choices.
       bind_err (case choices of
                   JArr [] \<Rightarrow> Inl IndexError
                 | JArr (c # cs) \<Rightarrow> Inr c
                 | JStr [] \<Rightarrow> Inl IndexError
                 | JStr (c # cs) \<Rightarrow> Inr (JStr [c])
                 | JObj kvs \<Rightarrow> Inl KeyError
                 | _ \<Rightarrow> Inl TypeError) (\<lambda>first.
         bind_err (subscript first ''message'') (\<lambda>message.
           bind_err (subscript message ''content'') (\<lambda>content.
             case content of JStr text \<Rightarrow> Inr text | _ \<Rightarrow> Inl AttributeError))))"

definition unfence :: "string \<Rightarrow> string" where
  \<comment> \<open>the reply without its code fence\<close>
  "unfence text =
     (let t = strip_chars CHR 0x60 (strip text) in
      if startswith t ''json'' then strip (drop 4 t) else t)"

definition translate_dict :: "env \<Rightarrow> (string \<times> string) list \<Rightarrow> string \<Rightarrow> json \<times> call list" where
  "translate_dict env payload_en target_lang =
     (if openrouter_api_key env = [] then (passthrough payload_en target_lang, [])
      else
        (case bind_err (openrouter_post env target_lang payload_en) message_content of
           Inl e \<Rightarrow> (passthrough payload_en target_lang, [OpenRouterPost target_lang])
         | Inr text \<Rightarrow>
             (case json_loads env (unfence text) of
                None \<Rightarrow> (passthrough payload_en target_lang, [OpenRouterPost target_lang])
              | Some v \<Rightarrow> (v, [OpenRouterPost target_lang]))))"

section \<open>HTTP helpers and the retry decorator\<close>

text \<open>
  \<^verbatim>\<open>@retry(stop_max_attempt_number=n, ...)\<close> of the \<^verbatim>\<open>retrying\<close> package: the decorated
  body is called again only when it raised, after the pause the wait function gives for
  the number of the failed attempt, and the exception of attempt \<open>n\<close> is raised to the
  caller. The body is given the index of the attempt, from 0.
\<close>

fun retry_loop :: "nat \<Rightarrow> (nat \<Rightarrow> nat) \<Rightarrow> nat \<Rightarrow> (nat \<Rightarrow> 'a traced) \<Rightarrow> 'a traced" where
  "retry_loop 0 wait k body = body k"
| "retry_loop (Suc r) wait k body =
     (case body k of
        (Inr v, tr) \<Rightarrow> (Inr v, tr)
      | (Inl e, tr) \<Rightarrow>
          (case retry_loop r wait (Suc k) body of
             (res, tr') \<Rightarrow> (res, tr @ [Backoff (wait (Suc k))] @ tr')))"

definition retry :: "nat \<Rightarrow> (nat \<Rightarrow> nat) \<Rightarrow> (nat \<Rightarrow> 'a traced) \<Rightarrow> 'a traced" where
  "retry stop_max_attempt_number wait body = retry_loop (stop_max_attempt_number - 1) wait 0 body"

definition wait_fixed :: "nat \<Rightarrow> nat" where
  \<comment> \<open>\<^verbatim>\<open>wait_fixed=2500\<close>\<close>
  "wait_fixed previous_attempt_number = 2500"

definition wait_exponential :: "nat \<Rightarrow> nat" where
  \<comment> \<open>\<^verbatim>\<open>wait_exponential_multiplier=1000, wait_exponential_max=6000\<close>\<close>
  "wait_exponential previous_attempt_number = min (1000 * 2 ^ previous_attempt_number) 6000"

definition get :: "env \<Rightarrow> string \<Rightarrow> string traced" where
  \<comment> \<open>\<^verbatim>\<open>_get\<close>: the body of the response, or the exception of the last attempt\<close>
  "get env url =
     retry CONN_RETRIES wait_exponential (\<lambda>k. (http_get env url k, [HttpGet url]))"

definition fetchfox :: "env \<Rightarrow> string \<Rightarrow> json traced" where
  \<comment> \<open>\<^verbatim>\<open>_fetchfox\<close>: the decoded response, \<open>JNull\<close> for \<^verbatim>\<open>None\<close>\<close>
  "fetchfox env url =
     retry CONN_RETRIES wait_fixed (\<lambda>k.
       if fetchfox_api_key env = [] then (Inr JNull, [])
       else
         (case fetchfox_post env url k of
            Inl e \<Rightarrow> (Inr JNull, [FetchFoxPost url])
          | Inr data \<Rightarrow> (Inr data, [FetchFoxPost url])))"

section \<open>Category listing\<close>

definition extract_category_name :: "string \<Rightarrow> string" where
  "extract_category_name category_url = last_segment category_url"

fun string_of_nat :: "nat \<Rightarrow> string" where
  \<comment> \<open>\<^verbatim>\<open>str(n)\<close>\<close>
  "string_of_nat n =
     (if n < 10 then [char_of (48 + n)]
      else string_of_nat (n div 10) @ [char_of (48 + n mod 10)])"

declare string_of_nat.simps [simp del]

definition page_url :: "string \<Rightarrow> nat \<Rightarrow> string" where
  \<comment> \<open>\<^verbatim>\<open>f"{category_url}?page={page}" if page > 1 else category_url\<close>\<close>
  "page_url category_url page =
     (if 1 < page then category_url @ ''?page='' @ string_of_nat page else category_url)"

definition absolute :: "env \<Rightarrow> string \<Rightarrow> string" where
  \<comment> \<open>an image address that does not start with http is joined to the base URL\<close>
  "absolute env img = (if startswith img ''http'' then img else urljoin_base env img)"

definition parse_card_bs4 :: "env \<Rightarrow> string \<Rightarrow> anchor \<Rightarrow> tool_info" where
  "parse_card_bs4 env category_url a =
     (let href = (case a_href a of None \<Rightarrow> [] | Some h \<Rightarrow> h);
          tool_url = urljoin_base env href;
          slug = last_segment tool_url;
          name = (case a_heading a of Some h \<Rightarrow> h | None \<Rightarrow> take 80 (a_text a));
          image_url = (case a_img_src a of
                         None \<Rightarrow> []
                       | Some src \<Rightarrow> if src = [] then [] else absolute env src);
          desc = (case a_p a of None \<Rightarrow> [] | Some d \<Rightarrow> d)
      in \<lparr> ti_name = name, ti_url = tool_url, ti_slug = slug, ti_image_url = image_url,
           ti_short_description = desc, ti_category = extract_category_name category_url \<rparr>)"

definition parse_cards_bs4 :: "env \<Rightarrow> string \<Rightarrow> string \<Rightarrow> tool_info list" where
  "parse_cards_bs4 env html_doc category_url =
     map (parse_card_bs4 env category_url) (soup_anchors env html_doc)"

definition get_stripped :: "json \<Rightarrow> string \<Rightarrow> string \<Rightarrow> error + string" where
  \<comment> \<open>\<^verbatim>\<open>(d.get(k) or dflt).strip()\<close>\<close>
  "get_stripped d k dflt = bind_err (dict_get d k) (\<lambda>v. str_strip (py_or v (JStr dflt)))"

definition card_tool :: "env \<Rightarrow> string \<Rightarrow> json \<Rightarrow> error + tool_info option" where
  \<comment> \<open>one card of the FetchFox answer; \<open>None\<close> when the card has no href and is skipped\<close>
  "card_tool env category_url crd =
     bind_err (get_stripped crd ''href'' []) (\<lambda>href.
       if href = [] then Inr None
       else
         (let tool_url = urljoin_base env href; slug = last_segment tool_url in
          bind_err (get_stripped crd ''name'' []) (\<lambda>name.
            bind_err (get_stripped crd ''img'' []) (\<lambda>img.
              bind_err (get_stripped crd ''desc'' []) (\<lambda>desc.
                Inr (Some \<lparr> ti_name = (if name = [] then slug else name), ti_url = tool_url,
                       ti_slug = slug,
                       ti_image_url = (if img = [] then [] else absolute env img),
                       ti_short_description = desc,
                       ti_category = extract_category_name category_url \<rparr>))))))"

fun cards_tools :: "env \<Rightarrow> string \<Rightarrow> json list \<Rightarrow> error + tool_info list" where
  \<comment> \<open>the loop over the cards: the first card that raises ends it\<close>
  "cards_tools env category_url [] = Inr []"
| "cards_tools env category_url (crd # crds) =
     bind_err (card_tool env category_url crd) (\<lambda>t.
       bind_err (cards_tools env category_url crds) (\<lambda>ts.
         Inr (case t of None \<Rightarrow> ts | Some ti \<Rightarrow> ti # ts)))"

definition uniq_by_slug :: "tool_info list \<Rightarrow> tool_info list" where
  \<comment> \<open>\<^verbatim>\<open>uniq[t.slug] = t\<close> for each tool, then \<^verbatim>\<open>list(uniq.values())\<close>: a slug keeps the
      place of its first card and the fields of its last\<close>
  "uniq_by_slug tools = map snd (fold (\<lambda>t uniq. AList.update (ti_slug t) t uniq) tools [])"

definition list_page_tools :: "env \<Rightarrow> string \<Rightarrow> nat \<Rightarrow> (tool_info list \<times> bool) traced" where
  "list_page_tools env category_url page =
     (let url = page_url category_url page in
      bind_tr (fetchfox env url) (\<lambda>data.
        bind_tr (lift_tr (if truthy data then py_in ''cards'' data else Inr False)) (\<lambda>has_cards.
          if has_cards then
            bind_tr (lift_tr (bind_err (subscript data ''cards'') (\<lambda>cards.
                       bind_err (py_iter cards) (cards_tools env category_url)))) (\<lambda>tools.
              (case get env url of
                 (Inl e, tr) \<Rightarrow> (Inr (uniq_by_slug tools, False), tr)
               | (Inr body, tr) \<Rightarrow> (Inr (uniq_by_slug tools, soup_has_next env body), tr)))
          else
            bind_tr (get env url) (\<lambda>body.
              (Inr (uniq_by_slug (parse_cards_bs4 env body category_url),
                    soup_has_next env body), [])))))"

text \<open>
  The loop of \<^verbatim>\<open>get_all_tools_from_category\<close>, over any page lister and page cap. Besides
  the tools and the calls it returns the numbers of the pages it asked the lister for, in
  order.
\<close>

function get_all_tools_loop ::
  "nat \<Rightarrow> (nat \<Rightarrow> (tool_info list \<times> bool) traced) \<Rightarrow> nat \<Rightarrow> tool_info list
     \<Rightarrow> (error + tool_info list) \<times> call list \<times> nat list" where
  "get_all_tools_loop cap lister page all_tools =
     (if page \<le> cap then
        (case lister page of
           (Inl e, tr) \<Rightarrow> (Inl e, tr, [page])
         | (Inr (tools, has_next), tr) \<Rightarrow>
             if tools = [] \<and> 1 < page then (Inr all_tools, tr, [page])
             else if \<not> has_next then (Inr (all_tools @ tools), tr, [page])
             else
               (case get_all_tools_loop cap lister (page + 1) (all_tools @ tools) of
                  (res, tr', pages) \<Rightarrow> (res, tr @ tr', page # pages)))
      else (Inr all_tools, [], []))"
  by pat_completeness auto
termination
  by (relation "measure (\<lambda>(cap, lister, page, all_tools). Suc cap - page)") auto

declare get_all_tools_loop.simps [simp del]

definition get_all_tools_from_category ::
  "env \<Rightarrow> string \<Rightarrow> (error + tool_info list) \<times> call list \<times> nat list" where
  "get_all_tools_from_category env category_url =
     get_all_tools_loop MAX_PAGES_PER_CATEGORY (list_page_tools env category_url) 1 []"

section \<open>Tool detail\<close>

definition decode_redirect :: "env \<Rightarrow> string \<Rightarrow> string" where
  "decode_redirect env href =
     (if str_contains href ''redirect'' then
        (case query_to env href of Some u \<Rightarrow> u | None \<Rightarrow> href)
      else href)"

record detail =
  d_title :: string
  d_desc :: string
  d_image :: string
  d_redirect :: string
  d_pricing :: string
  d_tags :: "string list"

definition tag_texts :: "json list \<Rightarrow> string list" where
  \<comment> \<open>\<^verbatim>\<open>[t.strip().lower() for t in xs if t and isinstance(t, str)]\<close>\<close>
  "tag_texts xs =
     concat (map (\<lambda>x. case x of JStr t \<Rightarrow> if t = [] then [] else [lower (strip t)] | _ \<Rightarrow> []) xs)"

definition detail_of_json :: "env \<Rightarrow> json \<Rightarrow> error + detail" where
  \<comment> \<open>the dict \<^verbatim>\<open>_scrape_detail_fetchfox\<close> builds from a FetchFox answer, field by field\<close>
  "detail_of_json env data =
     bind_err (get_stripped data ''title'' []) (\<lambda>title.
     bind_err (dict_get data ''meta_desc'') (\<lambda>meta_desc.
     bind_err (dict_get data ''og_desc'') (\<lambda>og_desc.
     bind_err (str_strip (py_or meta_desc (py_or og_desc (JStr [])))) (\<lambda>desc.
     bind_err (get_stripped data ''og_img'' []) (\<lambda>image.
     bind_err (get_stripped data ''visit'' []) (\<lambda>visit.
     bind_err (get_stripped data ''pricing'' ''Information not available'') (\<lambda>pricing.
     bind_err (dict_get data ''tags'') (\<lambda>tags.
     bind_err (py_iter (py_or tags (JArr []))) (\<lambda>ts.
       Inr \<lparr> d_title = title, d_desc = desc, d_image = image,
             d_redirect = decode_redirect env visit, d_pricing = pricing,
             d_tags = tag_texts ts \<rparr>)))))))))"

definition scrape_detail_fetchfox :: "env \<Rightarrow> string \<Rightarrow> detail option traced" where
  "scrape_detail_fetchfox env tool_url =
     bind_tr (fetchfox env tool_url) (\<lambda>data.
       if \<not> truthy data then (Inr None, [])
       else lift_tr (bind_err (detail_of_json env data) (\<lambda>d. Inr (Some d))))"

fun pick_desc :: "string \<Rightarrow> string option list \<Rightarrow> string" where
  \<comment> \<open>the description loop: the first selector with a non-empty value ends it\<close>
  "pick_desc desc [] = desc"
| "pick_desc desc (None # sels) = pick_desc desc sels"
| "pick_desc desc (Some d # sels) = (if d \<noteq> [] then d else pick_desc d sels)"

fun pick_redirect :: "string option list \<Rightarrow> string" where
  "pick_redirect [] = []"
| "pick_redirect (None # sels) = pick_redirect sels"
| "pick_redirect (Some h # sels) = (if h \<noteq> [] then h else pick_redirect sels)"

fun pick_pricing :: "string option list \<Rightarrow> string" where
  "pick_pricing [] = ''Information not available''"
| "pick_pricing (None # sels) = pick_pricing sels"
| "pick_pricing (Some t # sels) = t"

definition collect_tags :: "string list list \<Rightarrow> string list" where
  "collect_tags selections =
     fold (\<lambda>text tags. let t = lower text in
             if t \<noteq> [] \<and> t \<notin> set tags then tags @ [t] else tags)
       (concat selections) []"

definition scrape_detail_bs4 :: "env \<Rightarrow> string \<Rightarrow> detail traced" where
  "scrape_detail_bs4 env tool_url =
     bind_tr (get env tool_url) (\<lambda>body.
       (let pg = soup_detail env body in
        (Inr \<lparr> d_title = (case dp_title pg of Some t \<Rightarrow> t | None \<Rightarrow> last_segment tool_url),
               d_desc = pick_desc [] (dp_descs pg),
               d_image = (case dp_og_image pg of Some c \<Rightarrow> c | None \<Rightarrow> []),
               d_redirect = decode_redirect env (pick_redirect (dp_redirs pg)),
               d_pricing = pick_pricing (dp_pricings pg),
               d_tags = collect_tags (dp_tags pg) \<rparr>, [])))"

section \<open>Tool records\<close>

type_synonym entry = "(string \<times> json) list"

record tool_data =
  slug :: string
  image_url :: string
  redirect_url :: string
  demo_url :: string
  technical_requirements :: string
  searchIndexEn :: string
  searchIndexEs :: string
  translations_of :: "(string \<times> entry) list"  \<comment> \<open>the key \<^verbatim>\<open>"translations"\<close>\<close>

definition empty_entry :: entry where
  "empty_entry =
     [(''title'', JStr []), (''shortDescription'', JStr []), (''longDescription'', JStr []),
      (''tags'', JStr []), (''pricingInfo'', JStr []), (''category'', JStr []),
      (''appType'', JStr [])]"

definition TOOL_TEMPLATE :: tool_data where
  \<comment> \<open>the accented letter of the requirements text is written as its two UTF-8 bytes\<close>
  "TOOL_TEMPLATE =
     \<lparr> slug = [], image_url = [], redirect_url = [], demo_url = [],
       technical_requirements =
         ''Navegador web moderno, conexi'' @ [CHR 0xC3, CHR 0xB3] @ ''n a internet estable'',
       searchIndexEn = [], searchIndexEs = [],
       translations_of =
         [(''es'', empty_entry), (''pt'', empty_entry), (''en'', empty_entry),
          (''fr'', empty_entry), (''de'', empty_entry)] \<rparr>"

definition CATEGORY_TRANSLATIONS :: "(string \<times> (string \<times> string) list) list" where
  "CATEGORY_TRANSLATIONS =
     [(''personal-assistant'', [(''es'', ''asistente-personal''), (''pt'', ''assistente-pessoal''),
        (''en'', ''personal-assistant''), (''fr'', ''assistant-personnel''),
        (''de'', ''personlicher-assistent'')]),
      (''research-assistant'', [(''es'', ''asistente-investigacion''),
        (''pt'', ''assistente-pesquisa''), (''en'', ''research-assistant''),
        (''fr'', ''assistant-recherche''), (''de'', ''forschungsassistent'')]),
      (''spreadsheet-assistant'', [(''es'', ''asistente-hojas-calculo''),
        (''pt'', ''assistente-planilhas''), (''en'', ''spreadsheet-assistant''),
        (''fr'', ''assistant-feuilles-calcul''), (''de'', ''tabellenkalkulation-assistent'')]),
      (''translators'', [(''es'', ''traductores''), (''pt'', ''tradutores''),
        (''en'', ''translators''), (''fr'', ''traducteurs''), (''de'', ''ubersetzer'')]),
      (''presentations'', [(''es'', ''presentaciones''), (''pt'', ''apresentacoes''),
        (''en'', ''presentations''), (''fr'', ''presentations''), (''de'', ''prasentationen'')]),
      (''email-assistant'', [(''es'', ''asistente-email''), (''pt'', ''assistente-email''),
        (''en'', ''email-assistant''), (''fr'', ''assistant-email''), (''de'', ''email-assistent'')]),
      (''search-engine'', [(''es'', ''motor-busqueda''), (''pt'', ''motor-busca''),
        (''en'', ''search-engine''), (''fr'', ''moteur-recherche''), (''de'', ''suchmaschine'')]),
      (''prompt-generators'', [(''es'', ''generadores-prompts''), (''pt'', ''geradores-prompts''),
        (''en'', ''prompt-generators''), (''fr'', ''generateurs-prompts''),
        (''de'', ''prompt-generatoren'')]),
      (''writing-generators'', [(''es'', ''generadores-escritura''),
        (''pt'', ''geradores-escrita''), (''en'', ''writing-generators''),
        (''fr'', ''generateurs-ecriture''), (''de'', ''schreib-generatoren'')]),
      (''storyteller'', [(''es'', ''narrador''), (''pt'', ''contador-historias''),
        (''en'', ''storyteller''), (''fr'', ''conteur''), (''de'', ''geschichtenerzahler'')]),
      (''summarizer'', [(''es'', ''resumidor''), (''pt'', ''sumarizador''),
        (''en'', ''summarizer''), (''fr'', ''resumeur''), (''de'', ''zusammenfasser'')]),
      (''code-assistant'', [(''es'', ''asistente-codigo''), (''pt'', ''assistente-codigo''),
        (''en'', ''code-assistant''), (''fr'', ''assistant-code''), (''de'', ''code-assistent'')]),
      (''no-code'', [(''es'', ''sin-codigo''), (''pt'', ''sem-codigo''), (''en'', ''no-code''),
        (''fr'', ''sans-code''), (''de'', ''kein-code'')]),
      (''sql-assistant'', [(''es'', ''asistente-sql''), (''pt'', ''assistente-sql''),
        (''en'', ''sql-assistant''), (''fr'', ''assistant-sql''), (''de'', ''sql-assistent'')])]"

function replace :: "string \<Rightarrow> string \<Rightarrow> string \<Rightarrow> string" where
  \<comment> \<open>\<^verbatim>\<open>s.replace(old, new)\<close> for a non-empty \<open>old\<close>: the occurrences from the left, without
      overlap\<close>
  "replace old new s =
     (if s = [] \<or> old = [] then s
      else if startswith s old then new @ replace old new (drop (length old) s)
      else hd s # replace old new (tl s))"
  by pat_completeness auto
termination
  by (relation "measure (\<lambda>(old, new, s). length s)") auto

declare replace.simps [simp del]

definition search_terms_mapping :: "(string \<times> string) list" where
  "search_terms_mapping =
     [(''assistant'', ''asistente''), (''personal'', ''personal''), (''ai'', ''ia''),
      (''artificial intelligence'', ''inteligencia artificial''), (''tool'', ''herramienta''),
      (''generator'', ''generador''), (''code'', ''codigo''), (''research'', ''investigacion''),
      (''writing'', ''escritura''), (''image'', ''imagen''), (''video'', ''video''),
      (''audio'', ''audio''), (''chat'', ''chat''), (''chatbot'', ''chatbot'')]"

definition translate_search_terms :: "string \<Rightarrow> string" where
  "translate_search_terms english_terms =
     fold (\<lambda>m res. replace (fst m) (snd m) res) search_terms_mapping (lower english_terms)"

definition ellipsis :: string where
  \<comment> \<open>the horizontal ellipsis U+2026, one character in the source, here the three bytes
      of its UTF-8 encoding\<close>
  "ellipsis = [CHR 0xE2, CHR 0x80, CHR 0xA6]"

definition dict_update_obj :: "entry \<Rightarrow> (string \<times> json) list \<Rightarrow> entry" where
  \<comment> \<open>\<^verbatim>\<open>d.update(m)\<close> for a mapping \<open>m\<close>: a key already there keeps its place\<close>
  "dict_update_obj d kvs = fold (\<lambda>kv acc. AList.update (fst kv) (snd kv) acc) kvs d"

fun dict_update :: "env \<Rightarrow> entry \<Rightarrow> json \<Rightarrow> error + entry" where
  \<comment> \<open>\<^verbatim>\<open>d.update(v)\<close> for a decoded JSON value: a mapping, or an iterable of pairs\<close>
  "dict_update env d (JObj kvs) = Inr (dict_update_obj d kvs)"
| "dict_update env d (JArr []) = Inr d"
| "dict_update env d (JArr (x # xs)) = dict_update_seq env d (x # xs)"
| "dict_update env d (JStr []) = Inr d"
| "dict_update env d (JStr (c # cs)) = Inl ValueError"
| "dict_update env d JNull = Inl TypeError"
| "dict_update env d (JBool b) = Inl TypeError"
| "dict_update env d (JNum n) = Inl TypeError"

fun set_item :: "json \<Rightarrow> string \<Rightarrow> json \<Rightarrow> error + json" where
  \<comment> \<open>\<^verbatim>\<open>d[k] = v\<close> with a string key: only a dict takes it\<close>
  "set_item (JObj kvs) k v = Inr (JObj (AList.update k v kvs))"
| "set_item _ k v = Inl TypeError"

definition category_translation :: "string \<Rightarrow> string \<Rightarrow> string option" where
  \<comment> \<open>\<^verbatim>\<open>CATEGORY_TRANSLATIONS.get(cat, {}).get(lang)\<close>\<close>
  "category_translation cat lang =
     (case map_of CATEGORY_TRANSLATIONS cat of None \<Rightarrow> None | Some cat_map \<Rightarrow> map_of cat_map lang)"

definition translate_into ::
  "env \<Rightarrow> (string \<times> string) list \<Rightarrow> string \<Rightarrow> string \<Rightarrow> tool_data \<Rightarrow> tool_data traced" where
  \<comment> \<open>one round of the loop over the target languages\<close>
  "translate_into env pack cat lang data =
     (let cat_trans = category_translation cat lang in
      case translate_dict env pack lang of
        (reply, calls) \<Rightarrow>
          (bind_err
             (case cat_trans of
                None \<Rightarrow> Inr reply
              | Some c \<Rightarrow> if c \<noteq> [] then set_item reply ''category'' (JStr c) else Inr reply)
             (\<lambda>translated.
                bind_err
                  (case map_of (translations_of data) lang of
                     None \<Rightarrow> Inl KeyError
                   | Some e \<Rightarrow> dict_update env e translated)
                  (\<lambda>e. Inr (data \<lparr> translations_of := AList.update lang e (translations_of data) \<rparr>))),
           calls))"

fun translate_all ::
  "env \<Rightarrow> (string \<times> string) list \<Rightarrow> string \<Rightarrow> string list \<Rightarrow> tool_data \<Rightarrow> tool_data traced" where
  "translate_all env pack cat [] data = (Inr data, [])"
| "translate_all env pack cat (lang # langs) data =
     bind_tr (translate_into env pack cat lang data) (translate_all env pack cat langs)"

definition en_fields :: "tool_info \<Rightarrow> detail \<Rightarrow> (string \<times> string) list" where
  \<comment> \<open>the English entry, which is also the pack sent to the translator\<close>
  "en_fields tool_info detail =
     (let title = (if d_title detail \<noteq> [] then d_title detail else ti_name tool_info);
          desc = (if d_desc detail \<noteq> [] then d_desc detail else ti_short_description tool_info);
          tags = d_tags detail
      in [(''title'', title),
          (''shortDescription'',
             strip (if ti_short_description tool_info \<noteq> [] then ti_short_description tool_info
                    else take 180 desc @ ellipsis)),
          (''longDescription'', strip desc),
          (''tags'', join '', '' (take 12 tags)),
          (''pricingInfo'', d_pricing detail),
          (''category'', ti_category tool_info),
          (''appType'', determine_app_type title desc tags)])"

definition base_record :: "tool_info \<Rightarrow> detail \<Rightarrow> tool_data" where
  \<comment> \<open>\<^verbatim>\<open>scrape_tool_details\<close> from the detail to the loop over the target languages\<close>
  "base_record tool_info detail =
     (let title = (if d_title detail \<noteq> [] then d_title detail else ti_name tool_info);
          desc = (if d_desc detail \<noteq> [] then d_desc detail else ti_short_description tool_info);
          tags = d_tags detail;
          redirect = d_redirect detail;
          img = (if d_image detail \<noteq> [] then d_image detail else ti_image_url tool_info);
          index_en = lower title @ '' '' @ lower desc @ '' '' @ join '' '' tags
      in TOOL_TEMPLATE
           \<lparr> slug := ti_slug tool_info, image_url := img, redirect_url := redirect,
             demo_url := [], searchIndexEn := index_en,
             searchIndexEs := translate_search_terms index_en,
             translations_of :=
               AList.update ''en''
                 (dict_update_obj empty_entry
                    (map (\<lambda>kv. (fst kv, JStr (snd kv))) (en_fields tool_info detail)))
                 (translations_of TOOL_TEMPLATE) \<rparr>)"

definition build_record :: "env \<Rightarrow> tool_info \<Rightarrow> detail \<Rightarrow> tool_data traced" where
  \<comment> \<open>the loop over the target languages, on the pack of the English fields\<close>
  "build_record env tool_info detail =
     translate_all env (en_fields tool_info detail) (ti_category tool_info)
       [''es'', ''pt'', ''fr'', ''de''] (base_record tool_info detail)"

text \<open>
  The record store: what the file of a slug holds, a record or text that is not JSON. A
  record written by \<^verbatim>\<open>json.dump\<close> is read back unchanged by \<^verbatim>\<open>json.load\<close>.
\<close>

datatype stored = Record tool_data | Garbage

definition extract_detail :: "env \<Rightarrow> string \<Rightarrow> detail traced" where
  \<comment> \<open>\<^verbatim>\<open>self._scrape_detail_fetchfox(url) or self._scrape_detail_bs4(url)\<close>\<close>
  "extract_detail env tool_url =
     bind_tr (scrape_detail_fetchfox env tool_url) (\<lambda>d.
       case d of
         Some detail \<Rightarrow> (Inr detail, [])
       | None \<Rightarrow> scrape_detail_bs4 env tool_url)"

definition scrape_tool_details ::
  "env \<Rightarrow> (string \<rightharpoonup> stored) \<Rightarrow> tool_info \<Rightarrow> tool_data traced" where
  "scrape_tool_details env files tool_info =
     (case files (ti_slug tool_info) of
        Some (Record r) \<Rightarrow> (Inr r, [])
      | Some Garbage \<Rightarrow> (Inl JSONDecodeError, [])
      | None \<Rightarrow> bind_tr (extract_detail env (ti_url tool_info)) (build_record env tool_info))"

definition translated_field :: "tool_data traced \<Rightarrow> string \<Rightarrow> string \<Rightarrow> json option" where
  \<comment> \<open>\<^verbatim>\<open>data["translations"][lang][k]\<close> of the record returned, when one is\<close>
  "translated_field res lang k =
     (case fst res of
        Inl e \<Rightarrow> None
      | Inr r \<Rightarrow> (case map_of (translations_of r) lang of None \<Rightarrow> None | Some e \<Rightarrow> map_of e k))"

fun distinct_keys :: "json \<Rightarrow> bool" where
  \<comment> \<open>the invariant of a decoded object: no key twice\<close>
  "distinct_keys (JObj kvs) = distinct (map fst kvs)"
| "distinct_keys _ = True"

section \<open>Persistence\<close>

type_synonym row = "(string \<times> json) list"

record store =
  seen :: "string set"  \<comment> \<open>\<^verbatim>\<open>self._seen\<close>\<close>
  tools_dir :: "string \<rightharpoonup> stored"  \<comment> \<open>the JSON file of each slug\<close>
  data_dir :: "string \<rightharpoonup> row list"  \<comment> \<open>the rows of the CSV of each category\<close>

definition save_tool_json :: "env \<Rightarrow> store \<Rightarrow> tool_data \<Rightarrow> bool \<times> store" where
  \<comment> \<open>opening the file truncates it, so a dump that fails leaves text that is not JSON\<close>
  "save_tool_json env st tool_data =
     (case json_write env (slug tool_data) of
        OpenFails \<Rightarrow> (False, st)
      | DumpFails \<Rightarrow> (False, st \<lparr> tools_dir := (tools_dir st)(slug tool_data \<mapsto> Garbage) \<rparr>)
      | Written \<Rightarrow>
          (True, st \<lparr> tools_dir := (tools_dir st)(slug tool_data \<mapsto> Record tool_data),
                      seen := insert (slug tool_data) (seen st) \<rparr>))"

datatype column = Top "tool_data \<Rightarrow> string" | Translated string string

definition fieldnames :: "(string \<times> column) list" where
  \<comment> \<open>the columns of the CSV in order, each with the place of a record it is read from\<close>
  "fieldnames =
     [(''slug'', Top slug),
      (''title_en'', Translated ''en'' ''title''),
      (''title_es'', Translated ''es'' ''title''),
      (''short_description_en'', Translated ''en'' ''shortDescription''),
      (''short_description_es'', Translated ''es'' ''shortDescription''),
      (''category'', Translated ''en'' ''category''),
      (''app_type'', Translated ''en'' ''appType''),
      (''pricing_en'', Translated ''en'' ''pricingInfo''),
      (''pricing_es'', Translated ''es'' ''pricingInfo''),
      (''image_url'', Top image_url),
      (''redirect_url'', Top redirect_url),
      (''tags_en'', Translated ''en'' ''tags''),
      (''tags_es'', Translated ''es'' ''tags''),
      (''search_index_en'', Top searchIndexEn),
      (''search_index_es'', Top searchIndexEs)]"

fun read_column :: "tool_data \<Rightarrow> column \<Rightarrow> error + json" where
  "read_column t (Top f) = Inr (JStr (f t))"
| "read_column t (Translated lang k) =
     (case map_of (translations_of t) lang of
        None \<Rightarrow> Inl KeyError
      | Some e \<Rightarrow> (case map_of e k of None \<Rightarrow> Inl KeyError | Some v \<Rightarrow> Inr v))"

fun read_columns :: "tool_data \<Rightarrow> (string \<times> column) list \<Rightarrow> error + row" where
  "read_columns t [] = Inr []"
| "read_columns t (c # cs) =
     bind_err (read_column t (snd c)) (\<lambda>v.
       bind_err (read_columns t cs) (\<lambda>r. Inr ((fst c, v) # r)))"

definition csv_row :: "tool_data \<Rightarrow> error + row" where
  \<comment> \<open>the dict given to \<^verbatim>\<open>writer.writerow\<close>\<close>
  "csv_row t = read_columns t fieldnames"

fun write_rows :: "tool_data list \<Rightarrow> row list \<times> bool" where
  \<comment> \<open>the rows written, and whether the loop reached its end without an exception\<close>
  "write_rows [] = ([], True)"
| "write_rows (t # ts) =
     (case csv_row t of
        Inl e \<Rightarrow> ([], False)
      | Inr r \<Rightarrow> (case write_rows ts of (written, ok) \<Rightarrow> (r # written, ok)))"

definition save_category_csv :: "env \<Rightarrow> store \<Rightarrow> tool_data list \<Rightarrow> string \<Rightarrow> bool \<times> store" where
  \<comment> \<open>the file is opened for writing, so the rows written replace what it held\<close>
  "save_category_csv env st rows category_name =
     (if \<not> csv_open env category_name then (False, st)
      else
        (case write_rows rows of
           (written, ok) \<Rightarrow> (ok, st \<lparr> data_dir := (data_dir st)(category_name \<mapsto> written) \<rparr>)))"

section \<open>A category end to end\<close>

fun load_existing ::
  "(string \<rightharpoonup> stored) \<Rightarrow> tool_info list \<Rightarrow> tool_data list \<Rightarrow> error + tool_data list" where
  \<comment> \<open>the loop that appends to \<open>results\<close> the record on disk of every listed tool that
      has one\<close>
  "load_existing files [] results = Inr results"
| "load_existing files (ti # tis) results =
     (case files (ti_slug ti) of
        None \<Rightarrow> load_existing files tis results
      | Some Garbage \<Rightarrow> Inl JSONDecodeError
      | Some (Record r) \<Rightarrow> load_existing files tis (results @ [r]))"

text \<open>
  The worker pool. The model takes one schedule: the tasks run one at a time, in the order
  \<open>as_completed\<close> gives, each followed at once by the handling of its result. A task that
  raised is logged and skipped.
\<close>

fun run_tasks ::
  "env \<Rightarrow> store \<Rightarrow> tool_info list \<Rightarrow> tool_data list \<Rightarrow> store \<times> tool_data list \<times> call list" where
  "run_tasks env st [] results = (st, results, [])"
| "run_tasks env st (ti # tis) results =
     (case scrape_tool_details env (tools_dir st) ti of
        (task, calls) \<Rightarrow>
          (case (case task of
                   Inl e \<Rightarrow> (st, results)
                 | Inr data \<Rightarrow>
                     if slug data \<noteq> [] then
                       (case save_tool_json env st data of
                          (saved, st1) \<Rightarrow> (st1, if saved then results @ [data] else results))
                     else (st, results)) of
             (st1, results1) \<Rightarrow>
               (case run_tasks env st1 tis results1 of
                  (st2, results2, calls2) \<Rightarrow> (st2, results2, calls @ calls2))))"

definition scrape_category :: "env \<Rightarrow> store \<Rightarrow> string \<Rightarrow> (error + bool) \<times> store \<times> call list" where
  "scrape_category env st category_url =
     (let category_name = extract_category_name category_url in
      case get_all_tools_from_category env category_url of
        (Inl e, calls, pages) \<Rightarrow> (Inl e, st, calls)
      | (Inr tools_info, calls, pages) \<Rightarrow>
          if tools_info = [] then (Inr False, st, calls)
          else
            (let to_process = filter (\<lambda>ti. ti_slug ti \<notin> seen st) tools_info in
             if to_process = [] then
               (case load_existing (tools_dir st) tools_info [] of
                  Inl e \<Rightarrow> (Inl e, st, calls)
                | Inr results \<Rightarrow>
                    (Inr True, snd (save_category_csv env st results category_name), calls))
             else
               (case run_tasks env st (as_completed env to_process) [] of
                  (st1, results, calls1) \<Rightarrow>
                    (case load_existing (tools_dir st1) tools_info results of
                       Inl e \<Rightarrow> (Inl e, st1, calls @ calls1)
                     | Inr results1 \<Rightarrow>
                         (Inr True, snd (save_category_csv env st1 results1 category_name),
                          calls @ calls1)))))"

section \<open>The spec's reading of the classifier\<close>

text \<open>
  The classifier as the specification words it: a table of categories in priority order,
  each with its keywords; the first category with a keyword in the text wins, and
  \<open>other\<close> is the default.
\<close>

fun classify_by_priority :: "(string \<times> string list) list \<Rightarrow> string \<Rightarrow> string" where
  "classify_by_priority [] text = ''other''"
| "classify_by_priority ((cat, ws) # rest) text =
     (if any_in ws text then cat else classify_by_priority rest text)"

definition app_type_priority :: "(string \<times> string list) list" where
  "app_type_priority =
     [(''assistant'', [''assistant'', ''chatbot'', ''chat'']),
      (''generator'', [''generator'', ''create'', ''generate'']),
      (''research'', [''research'', ''search'', ''find'']),
      (''writing'', [''write'', ''writing'', ''text'']),
      (''image'', [''image'', ''photo'', ''picture'']),
      (''video'', [''video'', ''movie'']),
      (''audio'', [''audio'', ''music'', ''sound'']),
      (''code'', [''code'', ''programming'', ''development''])]"

definition mentions :: "string \<Rightarrow> string list \<Rightarrow> bool" where
  \<comment> \<open>one of the words occurs in the text: the text is some text, the word, some text\<close>
  "mentions text ws = (\<exists>w \<in> set ws. \<exists>before after. text = before @ w @ after)"

fun keys_of :: "json \<Rightarrow> string set" where
  \<comment> \<open>the key set of a returned map\<close>
  "keys_of (JObj kvs) = set (map fst kvs)"
| "keys_of _ = {}"

text \<open>
  The stop condition of the pagination as the specification words it: the page raised, it
  carries no next-page signal, or it is a page after the first with zero cards.
\<close>

definition page_stops :: "(nat \<Rightarrow> (tool_info list \<times> bool) traced) \<Rightarrow> nat \<Rightarrow> bool" where
  "page_stops lister p =
     (case fst (lister p) of
        Inl e \<Rightarrow> True
      | Inr r \<Rightarrow> (fst r = [] \<and> 1 < p) \<or> \<not> snd r)"

section \<open>Concrete inputs\<close>

definition env0 :: env where
  \<comment> \<open>no credentials, every request fails\<close>
  "env0 = \<lparr> fetchfox_api_key = [], openrouter_api_key = [],
      http_get = (\<lambda>u n. Inl RequestError),
      fetchfox_post = (\<lambda>u n. Inl RequestError),
      openrouter_post = (\<lambda>l p. Inl RequestError),
      json_loads = (\<lambda>s. if s = ''{}'' then Some (JObj []) else None),
      dict_update_seq = (\<lambda>d xs. Inl ValueError),
      urljoin_base = (\<lambda>h. ''https://www.futurepedia.io'' @ h),
      query_to = (\<lambda>u. None),
      soup_has_next = (\<lambda>b. False),
      soup_anchors = (\<lambda>b. []),
      soup_detail = (\<lambda>b. \<lparr> dp_title = None, dp_descs = [], dp_redirs = [], dp_pricings = [],
         dp_tags = [], dp_og_image = None \<rparr>),
      json_write = (\<lambda>s. Written),
      csv_open = (\<lambda>c. True),
      as_completed = (\<lambda>ts. ts) \<rparr>"

definition chat_reply :: "string \<Rightarrow> json" where
  \<comment> \<open>a chat completion whose message content is the given text\<close>
  "chat_reply text =
     JObj [(''choices'', JArr [JObj [(''message'', JObj [(''content'', JStr text)])]])]"

definition env_live :: env where
  \<comment> \<open>a translation credential, and a model that answers with the empty JSON object\<close>
  "env_live = env0 \<lparr> openrouter_api_key := ''sk-1'',
      openrouter_post := (\<lambda>l p. Inr (chat_reply ''{}'')) \<rparr>"

definition env_ff :: env where
  \<comment> \<open>a FetchFox credential; every first attempt of a request fails, the second succeeds\<close>
  "env_ff = env0 \<lparr> fetchfox_api_key := ''ff-1'',
      fetchfox_post := (\<lambda>u n. if n = 0 then Inl RequestError else Inr (JObj [(''title'', JStr ''T'')])),
      http_get := (\<lambda>u n. if n = 0 then Inl RequestError else Inr ''<html></html>'') \<rparr>"

definition lister_always :: "nat \<Rightarrow> (tool_info list \<times> bool) traced" where
  \<comment> \<open>a synthetic page sequence: every page has one card and a next-page signal\<close>
  "lister_always p =
     (Inr ([\<lparr> ti_name = ''T'', ti_url = ''u'', ti_slug = string_of_nat p, ti_image_url = [],
               ti_short_description = [], ti_category = ''c'' \<rparr>], True), [HttpGet (string_of_nat p)])"

definition env_cards :: env where
  \<comment> \<open>a FetchFox credential and an answer with one card; every GET fails\<close>
  "env_cards = env0 \<lparr> fetchfox_api_key := ''ff-1'',
      fetchfox_post := (\<lambda>u n. Inr (JObj [(''cards'',
         JArr [JObj [(''href'', JStr ''/tool/a''), (''name'', JStr '' A '')]])])) \<rparr>"

definition tool_a :: tool_info where
  "tool_a = \<lparr> ti_name = ''A'', ti_url = ''https://www.futurepedia.io/tool/a'', ti_slug = ''a'',
      ti_image_url = [], ti_short_description = [], ti_category = ''code-assistant'' \<rparr>"

definition env_detail :: env where
  \<comment> \<open>no credentials; every GET answers with a detail page\<close>
  "env_detail = env0 \<lparr>
      http_get := (\<lambda>u n. Inr ''<html>''),
      soup_detail := (\<lambda>b. \<lparr> dp_title = Some ''Acme Coder'',
         dp_descs = [None, Some ''Long meta description''], dp_redirs = [],
         dp_pricings = [], dp_tags = [[''Code'']], dp_og_image = None \<rparr>) \<rparr>"

definition env_fr :: env where
  \<comment> \<open>a translation credential, and a model that answers with a title and a category of its own\<close>
  "env_fr = env_detail \<lparr> openrouter_api_key := ''sk-1'',
      openrouter_post := (\<lambda>l p. Inr (chat_reply ''x'')),
      json_loads := (\<lambda>s. if s = ''x''
         then Some (JObj [(''title'', JStr ''Acme Codeur''), (''category'', JStr ''outil de code'')])
         else None) \<rparr>"

definition tool_b :: tool_info where
  \<comment> \<open>the tool of a card with a short description\<close>
  "tool_b = tool_a \<lparr> ti_short_description := ''Card text'' \<rparr>"

definition stored_a :: tool_data where
  \<comment> \<open>a record on disk\<close>
  "stored_a = TOOL_TEMPLATE \<lparr> slug := ''a'', redirect_url := ''https://acme.example'' \<rparr>"

definition anchor_of :: "string \<Rightarrow> anchor" where
  \<comment> \<open>the listing anchor of the tool with the given slug\<close>
  "anchor_of s = \<lparr> a_href = Some (''/tool/'' @ s), a_heading = Some s, a_text = s,
      a_img_src = None, a_p = None \<rparr>"

definition env_five :: env where
  \<comment> \<open>no credentials; a listing of five tools on one page; every GET of the third tool's
      page fails, the other detail pages are served\<close>
  "env_five = env0 \<lparr>
      http_get := (\<lambda>u n.
         if u = ''https://www.futurepedia.io/ai-tools/code-assistant'' then Inr ''LISTING''
         else if u = ''https://www.futurepedia.io/tool/t3'' then Inl RequestError
         else Inr ''DETAIL''),
      soup_anchors := (\<lambda>b. if b = ''LISTING''
         then map anchor_of [''t1'', ''t2'', ''t3'', ''t4'', ''t5''] else []),
      soup_detail := (\<lambda>b. \<lparr> dp_title = Some ''Tool'', dp_descs = [Some ''A coding helper''],
         dp_redirs = [], dp_pricings = [], dp_tags = [], dp_og_image = None \<rparr>) \<rparr>"

definition store0 :: store where
  \<comment> \<open>nothing seen, nothing on disk\<close>
  "store0 = \<lparr> seen = {}, tools_dir = Map.empty, data_dir = Map.empty \<rparr>"

definition csv_slugs :: "store \<Rightarrow> string \<Rightarrow> json option list option" where
  \<comment> \<open>the slug column of the CSV of a category, row by row\<close>
  "csv_slugs st category_name =
     map_option (map (\<lambda>r. map_of r ''slug'')) (data_dir st category_name)"

definition has_record :: "store \<Rightarrow> string \<Rightarrow> bool" where
  \<comment> \<open>the file of the slug holds a record of that slug\<close>
  "has_record st s = (case tools_dir st s of Some (Record r) \<Rightarrow> slug r = s | _ \<Rightarrow> False)"

definition outcome ::
  "(error + bool) \<times> store \<times> call list \<Rightarrow> string list \<Rightarrow> string
     \<Rightarrow> (error + bool) \<times> bool list \<times> json option list option" where
  \<comment> \<open>of a category run: its result, which of the given slugs have a record on disk, and
      the slug column of the category's CSV\<close>
  "outcome run slugs category_name =
     (case run of
        (res, st, calls) \<Rightarrow> (res, map (has_record st) slugs, csv_slugs st category_name))"

section \<open>Properties\<close>

subsection \<open>Projections of the sequencing\<close>

lemma bind_tr_alt:
  "bind_tr m f =
     (case fst m of
        Inl e \<Rightarrow> (Inl e, snd m)
      | Inr x \<Rightarrow> (fst (f x), snd m @ snd (f x)))"
  by (simp add: bind_tr_def split: prod.splits sum.splits)

lemma get_all_tools_loop_alt:
  "get_all_tools_loop cap lister page all_tools =
     (if page \<le> cap then
        (case fst (lister page) of
           Inl e \<Rightarrow> (Inl e, snd (lister page), [page])
         | Inr r \<Rightarrow>
             if fst r = [] \<and> 1 < page then (Inr all_tools, snd (lister page), [page])
             else if \<not> snd r then (Inr (all_tools @ fst r), snd (lister page), [page])
             else
               (let rest = get_all_tools_loop cap lister (page + 1) (all_tools @ fst r) in
                (fst rest, snd (lister page) @ fst (snd rest), page # snd (snd rest))))
      else (Inr all_tools, [], []))"
  by (subst get_all_tools_loop.simps) (simp add: Let_def split: prod.splits sum.splits)

lemma translate_into_alt:
  "translate_into env pack cat lang data =
     (let cat_trans = category_translation cat lang;
          tr = translate_dict env pack lang
      in (bind_err
            (case cat_trans of
               None \<Rightarrow> Inr (fst tr)
             | Some c \<Rightarrow> if c \<noteq> [] then set_item (fst tr) ''category'' (JStr c) else Inr (fst tr))
            (\<lambda>translated.
               bind_err
                 (case map_of (translations_of data) lang of
                    None \<Rightarrow> Inl KeyError
                  | Some e \<Rightarrow> dict_update env e translated)
                 (\<lambda>e. Inr (data \<lparr> translations_of := AList.update lang e (translations_of data) \<rparr>))),
          snd tr))"
  by (cases "translate_dict env pack lang"; cases "category_translation cat lang")
    (simp_all add: translate_into_def Let_def)

subsection \<open>Strings\<close>

lemma str_contains_iff: "str_contains t w \<longleftrightarrow> (\<exists>ps ss. t = ps @ w @ ss)"
proof (induction t)
  case Nil
  then show ?case by auto
next
  case (Cons c cs)
  show ?case
  proof
    assume "str_contains (c # cs) w"
    then consider "startswith (c # cs) w" | "str_contains cs w" by auto
    then show "\<exists>ps ss. c # cs = ps @ w @ ss"
    proof cases
      case 1
      then have "c # cs = [] @ w @ drop (length w) (c # cs)"
        unfolding startswith_def by (metis append_Nil append_take_drop_id)
      then show ?thesis by blast
    next
      case 2
      then obtain ps ss where "cs = ps @ w @ ss" using Cons.IH by blast
      then have "c # cs = (c # ps) @ w @ ss" by simp
      then show ?thesis by blast
    qed
  next
    assume "\<exists>ps ss. c # cs = ps @ w @ ss"
    then obtain ps ss where eq: "c # cs = ps @ w @ ss" by blast
    show "str_contains (c # cs) w"
    proof (cases ps)
      case Nil
      then have "startswith (c # cs) w" using eq by (simp add: startswith_def)
      then show ?thesis by simp
    next
      case (Cons p ps')
      then have "cs = ps' @ w @ ss" using eq by simp
      then have "str_contains cs w" using Cons.IH by blast
      then show ?thesis by simp
    qed
  qed
qed

lemma str_contains_lower:
  assumes "str_contains t w" and "lower w = w"
  shows "str_contains (lower t) w"
proof -
  obtain ps ss where "t = ps @ w @ ss" using assms(1) str_contains_iff by blast
  then have "lower t = lower ps @ w @ lower ss" using assms(2) by (simp add: lower_def)
  then show ?thesis using str_contains_iff by blast
qed

lemma lower_chatbot: "lower ''chatbot'' = ''chatbot''"
  by (simp add: lower_def lower_char_def)

subsection \<open>The appType classifier\<close>

lemma determine_app_type_refines:
  "determine_app_type title description tags =
     classify_by_priority app_type_priority (app_type_text title description tags)"
  by (simp add: determine_app_type_def app_type_priority_def Let_def)

lemma any_in_mentions: "any_in ws text \<longleftrightarrow> mentions text ws"
  by (simp add: any_in_def mentions_def list_ex_iff str_contains_iff)

text \<open>
  C6. The classifier tests the categories in the order assistant, generator, research,
  writing, image, video, audio, code on the lower-cased text of title, description and
  tags, and the first category one of whose keywords occurs in the text wins: the result
  is a category exactly when a keyword of it occurs and no keyword of an earlier category
  does, and it is \<open>other\<close> when no keyword occurs at all. It is also the first-match
  reading of the priority table. In particular a text in which both \<open>chatbot\<close> and
  \<open>generator\<close> occur is classified \<open>assistant\<close>.
\<close>

theorem app_type_priority_order:
  "(let text = lower (title @ '' '' @ description @ '' '' @ join '' '' tags);
        r = determine_app_type title description tags;
        a = mentions text [''assistant'', ''chatbot'', ''chat''];
        g = mentions text [''generator'', ''create'', ''generate''];
        s = mentions text [''research'', ''search'', ''find''];
        w = mentions text [''write'', ''writing'', ''text''];
        i = mentions text [''image'', ''photo'', ''picture''];
        v = mentions text [''video'', ''movie''];
        u = mentions text [''audio'', ''music'', ''sound''];
        c = mentions text [''code'', ''programming'', ''development'']
    in (a \<longrightarrow> r = ''assistant'')
     \<and> (\<not> a \<and> g \<longrightarrow> r = ''generator'')
     \<and> (\<not> a \<and> \<not> g \<and> s \<longrightarrow> r = ''research'')
     \<and> (\<not> a \<and> \<not> g \<and> \<not> s \<and> w \<longrightarrow> r = ''writing'')
     \<and> (\<not> a \<and> \<not> g \<and> \<not> s \<and> \<not> w \<and> i \<longrightarrow> r = ''image'')
     \<and> (\<not> a \<and> \<not> g \<and> \<not> s \<and> \<not> w \<and> \<not> i \<and> v \<longrightarrow> r = ''video'')
     \<and> (\<not> a \<and> \<not> g \<and> \<not> s \<and> \<not> w \<and> \<not> i \<and> \<not> v \<and> u \<longrightarrow> r = ''audio'')
     \<and> (\<not> a \<and> \<not> g \<and> \<not> s \<and> \<not> w \<and> \<not> i \<and> \<not> v \<and> \<not> u \<and> c \<longrightarrow> r = ''code'')
     \<and> (\<not> a \<and> \<not> g \<and> \<not> s \<and> \<not> w \<and> \<not> i \<and> \<not> v \<and> \<not> u \<and> \<not> c \<longrightarrow> r = ''other''))
   \<and> determine_app_type title description tags =
       classify_by_priority app_type_priority (app_type_text title description tags)
   \<and> ((\<exists>before after. title @ '' '' @ description @ '' '' @ join '' '' tags
            = before @ ''chatbot'' @ after)
        \<and> (\<exists>before after. title @ '' '' @ description @ '' '' @ join '' '' tags
            = before @ ''generator'' @ after)
      \<longrightarrow> determine_app_type title description tags = ''assistant'')"
proof -
  have 1: "determine_app_type title description tags = ''assistant''"
    if "\<exists>before after. title @ '' '' @ description @ '' '' @ join '' '' tags
            = before @ ''chatbot'' @ after"
  proof -
    have "str_contains (title @ '' '' @ description @ '' '' @ join '' '' tags) ''chatbot''"
      using that str_contains_iff by blast
    then have "str_contains (app_type_text title description tags) ''chatbot''"
      unfolding app_type_text_def using lower_chatbot by (rule str_contains_lower)
    then have "any_in [''assistant'', ''chatbot'', ''chat''] (app_type_text title description tags)"
      by (simp add: any_in_def)
    then show ?thesis by (simp add: determine_app_type_def)
  qed
  have 2: "determine_app_type title description tags =
       classify_by_priority app_type_priority (app_type_text title description tags)"
    by (rule determine_app_type_refines)
  show ?thesis
    unfolding Let_def any_in_mentions [symmetric]
    using 1 2
    by (simp add: determine_app_type_def app_type_text_def Let_def)
qed

text \<open>One input at each boundary between two categories, and one without any keyword.\<close>

theorem app_type_priority_order_witness:
  "determine_app_type ''Logo generator'' ''A Chatbot that draws'' [''chatbot''] = ''assistant''
   \<and> determine_app_type ''Logo generator'' ''can search the web'' [] = ''generator''
   \<and> determine_app_type ''Paper finder'' ''helps you write'' [] = ''research''
   \<and> determine_app_type ''Copy helper'' ''write about an image'' [] = ''writing''
   \<and> determine_app_type ''Photo studio'' ''from photo to video'' [] = ''image''
   \<and> determine_app_type ''Clipper'' ''video with audio'' [] = ''video''
   \<and> determine_app_type ''Beats'' ''music for code reviews'' [] = ''audio''
   \<and> determine_app_type ''Dev box'' ''programming snippets'' [] = ''code''
   \<and> determine_app_type ''Sheets'' ''pivot tables'' [''spreadsheets''] = ''other''"
proof -
  have c: "\<exists>before after. ''Logo generator'' @ '' '' @ ''A Chatbot that draws'' @ '' '' @ join '' '' [''chatbot'']
      = before @ ''chatbot'' @ after"
    using str_contains_iff [of "''Logo generator'' @ '' '' @ ''A Chatbot that draws'' @ '' '' @ join '' '' [''chatbot'']" "''chatbot''"]
    by (simp add: startswith_def)
  have g: "\<exists>before after. ''Logo generator'' @ '' '' @ ''A Chatbot that draws'' @ '' '' @ join '' '' [''chatbot'']
      = before @ ''generator'' @ after"
    using str_contains_iff [of "''Logo generator'' @ '' '' @ ''A Chatbot that draws'' @ '' '' @ join '' '' [''chatbot'']" "''generator''"]
    by (simp add: startswith_def)
  from c g app_type_priority_order [of "''Logo generator''" "''A Chatbot that draws''" "[''chatbot'']"]
  have 1: "determine_app_type ''Logo generator'' ''A Chatbot that draws'' [''chatbot''] = ''assistant''"
    by blast
  let ?t = "lower (''Sheets'' @ '' '' @ ''pivot tables'' @ '' '' @ join '' '' [''spreadsheets''])"
  have n: "\<not> any_in [''assistant'', ''chatbot'', ''chat''] ?t"
    "\<not> any_in [''generator'', ''create'', ''generate''] ?t"
    "\<not> any_in [''research'', ''search'', ''find''] ?t"
    "\<not> any_in [''write'', ''writing'', ''text''] ?t"
    "\<not> any_in [''image'', ''photo'', ''picture''] ?t"
    "\<not> any_in [''video'', ''movie''] ?t"
    "\<not> any_in [''audio'', ''music'', ''sound''] ?t"
    "\<not> any_in [''code'', ''programming'', ''development''] ?t"
    by code_simp+
  from n [unfolded any_in_mentions]
    app_type_priority_order [of "''Sheets''" "''pivot tables''" "[''spreadsheets'']", unfolded Let_def]
  have 9: "determine_app_type ''Sheets'' ''pivot tables'' [''spreadsheets''] = ''other''"
    by blast
  let ?u = "lower (''Logo generator'' @ '' '' @ ''can search the web'' @ '' '' @ join '' '' [])"
  have m: "\<not> any_in [''assistant'', ''chatbot'', ''chat''] ?u"
    "any_in [''generator'', ''create'', ''generate''] ?u"
    "any_in [''research'', ''search'', ''find''] ?u"
    by code_simp+
  from m [unfolded any_in_mentions]
    app_type_priority_order [of "''Logo generator''" "''can search the web''" "[]", unfolded Let_def]
  have 2: "determine_app_type ''Logo generator'' ''can search the web'' [] = ''generator''"
    by blast
  have 3: "determine_app_type ''Paper finder'' ''helps you write'' [] = ''research''"
    "determine_app_type ''Copy helper'' ''write about an image'' [] = ''writing''"
    "determine_app_type ''Photo studio'' ''from photo to video'' [] = ''image''"
    "determine_app_type ''Clipper'' ''video with audio'' [] = ''video''"
    "determine_app_type ''Beats'' ''music for code reviews'' [] = ''audio''"
    "determine_app_type ''Dev box'' ''programming snippets'' [] = ''code''"
    by code_simp+
  from 1 2 3 9 show ?thesis by blast
qed

subsection \<open>The translation client\<close>

text \<open>
  C3. Without a translation credential the client makes no network call, and every value
  of the returned map is the marker \<open>[TRANSLATE-<lang>]\<close>, a blank and the original
  value, key by key.
\<close>

theorem translate_dict_fallback_marker:
  "openrouter_api_key env = [] \<longrightarrow>
     snd (translate_dict env payload_en target_lang) = []
     \<and> (\<exists>kvs. fst (translate_dict env payload_en target_lang) = JObj kvs
          \<and> map fst kvs = map fst payload_en
          \<and> (\<forall>i < length payload_en.
                snd (kvs ! i) = JStr (''[TRANSLATE-'' @ target_lang @ ''] '' @ snd (payload_en ! i))))"
  by (simp add: translate_dict_def passthrough_def comp_def)

theorem translate_dict_fallback_marker_witness:
  "openrouter_api_key env0 = []
   \<and> translate_dict env0 [(''title'', ''Hello''), (''tags'', ''a, b'')] ''fr''
       = (JObj [(''title'', JStr ''[TRANSLATE-fr] Hello''), (''tags'', JStr ''[TRANSLATE-fr] a, b'')], [])"
  using translate_dict_fallback_marker [of env0 "[(''title'', ''Hello''), (''tags'', ''a, b'')]" "''fr''"]
  by (simp add: env0_def translate_dict_def passthrough_def)

text \<open>
  C2. As stated the claim fails: with a credential, a reply that parses to the empty object
  is returned as it is, so the key set of the result is not the input's.
\<close>

theorem translate_dict_keys_counterexample:
  "keys_of (fst (translate_dict env_live [(''title'', ''Hello'')] ''fr''))
     \<noteq> set (map fst [(''title'', ''Hello'')])"
  by (simp add: translate_dict_def env_live_def env0_def chat_reply_def message_content_def
     bind_err_def unfence_def strip_def lstrip_def rstrip_def strip_chars_def startswith_def is_space_def)

text \<open>
  C2, amended. On the passthrough path (no credential, a failed call, a reply without a
  string content, or a content that is not JSON) the result is the marker-prefixed map,
  whose key set is the input's. When the live call succeeds, the result is whatever the
  reply parses to.
\<close>

theorem translate_dict_keys:
  "(openrouter_api_key env = []
      \<or> (\<exists>e. bind_err (openrouter_post env target_lang payload_en) message_content = Inl e)
      \<or> (\<exists>text. bind_err (openrouter_post env target_lang payload_en) message_content = Inr text
            \<and> json_loads env (unfence text) = None)
    \<longrightarrow> fst (translate_dict env payload_en target_lang) = passthrough payload_en target_lang
        \<and> keys_of (fst (translate_dict env payload_en target_lang)) = set (map fst payload_en))
   \<and> (openrouter_api_key env \<noteq> []
      \<and> bind_err (openrouter_post env target_lang payload_en) message_content = Inr text
      \<and> json_loads env (unfence text) = Some v
    \<longrightarrow> fst (translate_dict env payload_en target_lang) = v)"
  by (auto simp: translate_dict_def passthrough_def comp_def split: sum.splits option.splits)

theorem translate_dict_keys_witness:
  "openrouter_api_key env0 = []
   \<and> keys_of (fst (translate_dict env0 [(''title'', ''Hello'')] ''fr'')) = {''title''}"
proof -
  have k: "openrouter_api_key env0 = []" by (simp add: env0_def)
  with translate_dict_keys [of env0 "''fr''" "[(''title'', ''Hello'')]"]
  have "keys_of (fst (translate_dict env0 [(''title'', ''Hello'')] ''fr''))
      = set (map fst [(''title'', ''Hello'')])"
    by blast
  then show ?thesis using k by simp
qed

subsection \<open>The structured-extraction client\<close>

lemma fetchfox_no_key: "fetchfox_api_key env = [] \<Longrightarrow> fetchfox env url = (Inr JNull, [])"
  by (simp add: fetchfox_def retry_def CONN_RETRIES_def numeral_2_eq_2 split: prod.splits)

lemma fetchfox_with_key:
  "fetchfox_api_key env \<noteq> [] \<Longrightarrow>
   fetchfox env url =
     ((case fetchfox_post env url 0 of Inl e \<Rightarrow> Inr JNull | Inr data \<Rightarrow> Inr data),
      [FetchFoxPost url])"
  by (simp add: fetchfox_def retry_def CONN_RETRIES_def numeral_2_eq_2 split: sum.splits prod.splits)

lemma get_unfold:
  "get env url =
     (case http_get env url 0 of
        Inr b \<Rightarrow> (Inr b, [HttpGet url])
      | Inl e0 \<Rightarrow>
          (case http_get env url 1 of
             Inr b \<Rightarrow> (Inr b, [HttpGet url, Backoff 2000, HttpGet url])
           | Inl e1 \<Rightarrow>
               (http_get env url 2,
                [HttpGet url, Backoff 2000, HttpGet url, Backoff 4000, HttpGet url])))"
  by (simp add: get_def retry_def CONN_RETRIES_def numeral_2_eq_2 wait_exponential_def
      split: sum.splits prod.splits)

text \<open>
  C4. With a credential and a transport failure on the first attempt, \<open>fetchfox\<close> returns
  \<open>JNull\<close> after that single POST, without a pause or a second attempt, although the second
  attempt would have succeeded: the body catches every exception, so the retry decorator
  never sees one. The plain GET under the same decorator does retry.
\<close>

theorem fetchfox_single_attempt:
  "fetchfox env_ff ''https://www.futurepedia.io/tool/a''
     = (Inr JNull, [FetchFoxPost ''https://www.futurepedia.io/tool/a''])
   \<and> get env_ff ''https://www.futurepedia.io/tool/a''
     = (Inr ''<html></html>'',
        [HttpGet ''https://www.futurepedia.io/tool/a'', Backoff 2000,
         HttpGet ''https://www.futurepedia.io/tool/a''])"
  by (simp add: fetchfox_with_key get_unfold env_ff_def env0_def)

subsection \<open>Pagination\<close>

lemma loop_stop:
  assumes "page \<le> cap" "page_stops lister page"
  shows "snd (snd (get_all_tools_loop cap lister page all_tools)) = [page]"
    and "fst (snd (get_all_tools_loop cap lister page all_tools)) = snd (lister page)"
  using assms
  by (auto simp: get_all_tools_loop_alt [of cap lister page all_tools] page_stops_def
      split: sum.splits)

lemma loop_continue:
  assumes "page \<le> cap" "\<not> page_stops lister page"
  shows "\<exists>r. fst (lister page) = Inr r
      \<and> snd (snd (get_all_tools_loop cap lister page all_tools))
          = page # snd (snd (get_all_tools_loop cap lister (page + 1) (all_tools @ fst r)))
      \<and> fst (snd (get_all_tools_loop cap lister page all_tools))
          = snd (lister page) @ fst (snd (get_all_tools_loop cap lister (page + 1) (all_tools @ fst r)))"
  using assms
  by (auto simp: get_all_tools_loop_alt [of cap lister page all_tools] page_stops_def Let_def
      split: sum.splits)

lemma loop_past_cap:
  assumes "\<not> page \<le> cap"
  shows "get_all_tools_loop cap lister page all_tools = (Inr all_tools, [], [])"
  using assms by (simp add: get_all_tools_loop_alt [of cap lister page all_tools])

lemma loop_pages:
  "(let pages = snd (snd (get_all_tools_loop cap lister page all_tools)) in
     pages = [page ..< page + length pages]
     \<and> length pages \<le> Suc cap - page
     \<and> (page \<le> cap \<longrightarrow> pages \<noteq> [])
     \<and> (\<forall>p \<in> set (butlast pages). \<not> page_stops lister p)
     \<and> (pages \<noteq> [] \<and> last pages < cap \<longrightarrow> page_stops lister (last pages))
     \<and> fst (snd (get_all_tools_loop cap lister page all_tools))
         = concat (map (\<lambda>p. snd (lister p)) pages))"
proof (induction cap lister page all_tools rule: get_all_tools_loop.induct)
  case (1 cap lister page all_tools)
  show ?case
  proof (cases "page \<le> cap")
    case False
    then show ?thesis by (simp add: loop_past_cap)
  next
    case le: True
    show ?thesis
    proof (cases "page_stops lister page")
      case True
      then show ?thesis using le by (simp add: loop_stop Let_def)
    next
      case False
      from loop_continue [OF le False, of all_tools] obtain r where
        r: "fst (lister page) = Inr r"
        and ps: "snd (snd (get_all_tools_loop cap lister page all_tools))
          = page # snd (snd (get_all_tools_loop cap lister (page + 1) (all_tools @ fst r)))"
        and tr: "fst (snd (get_all_tools_loop cap lister page all_tools))
          = snd (lister page) @ fst (snd (get_all_tools_loop cap lister (page + 1) (all_tools @ fst r)))"
        by blast
      from False r have c1: "\<not> (fst r = [] \<and> 1 < page)" and c2: "\<not> \<not> snd r"
        by (auto simp: page_stops_def)
      have e1: "(Inr r, snd (lister page)) = lister page"
        using r by (metis prod.collapse)
      have e3: "(fst r, snd r) = r" by simp
      note IH = "1.IH" [OF le e1 refl e3 c1 c2, unfolded Let_def]
      define rest where "rest = snd (snd (get_all_tools_loop cap lister (page + 1) (all_tools @ fst r)))"
      have a: "rest = [page + 1 ..< page + 1 + length rest]"
        and b: "length rest \<le> Suc cap - (page + 1)"
        and c: "page + 1 \<le> cap \<longrightarrow> rest \<noteq> []"
        and d: "\<forall>p \<in> set (butlast rest). \<not> page_stops lister p"
        and e: "rest \<noteq> [] \<and> last rest < cap \<longrightarrow> page_stops lister (last rest)"
        and f: "fst (snd (get_all_tools_loop cap lister (page + 1) (all_tools @ fst r)))
            = concat (map (\<lambda>p. snd (lister p)) rest)"
        using IH unfolding rest_def by blast+
      have pages: "snd (snd (get_all_tools_loop cap lister page all_tools)) = page # rest"
        using ps rest_def by simp
      have g1: "page # rest = [page ..< page + length (page # rest)]"
      proof -
        have "[page ..< Suc (page + length rest)] = page # [Suc page ..< Suc (page + length rest)]"
          by (rule upt_conv_Cons) simp
        moreover have "rest = [Suc page ..< Suc (page + length rest)]" using a by simp
        ultimately show ?thesis by simp
      qed
      have g2: "length (page # rest) \<le> Suc cap - page" using b le by simp
      have g4: "\<forall>p \<in> set (butlast (page # rest)). \<not> page_stops lister p"
        using d False by (cases rest) auto
      have g5: "last (page # rest) < cap \<longrightarrow> page_stops lister (last (page # rest))"
      proof (cases rest)
        case Nil
        then show ?thesis using c le by auto
      next
        case (Cons x xs)
        then show ?thesis using e by simp
      qed
      have g6: "fst (snd (get_all_tools_loop cap lister page all_tools))
         = concat (map (\<lambda>p. snd (lister p)) (page # rest))"
        using tr f by simp
      show ?thesis unfolding Let_def pages using g1 g2 g4 g5 g6 by simp
    qed
  qed
qed

text \<open>
  C8. For every page lister and every cap the loop is a total function; started at page 1
  it asks for the pages 1, 2, ... in order and for at most cap of them, page 1 is asked
  for whenever the cap is at least 1, every page but the last asked for did not meet the
  stop condition, the last one met it unless it is the cap itself, and the calls made are
  those of the pages asked for. For the scraper the cap is 200, so page 1 is always asked
  for and at most 200 pages are.
\<close>

theorem pagination_bounded:
  "(let pages = snd (snd (get_all_tools_loop cap lister 1 [])) in
      pages = [1 ..< Suc (length pages)]
      \<and> length pages \<le> cap
      \<and> (1 \<le> cap \<longrightarrow> pages \<noteq> [])
      \<and> (\<forall>p \<in> set (butlast pages). \<not> page_stops lister p)
      \<and> (pages \<noteq> [] \<and> last pages < cap \<longrightarrow> page_stops lister (last pages))
      \<and> fst (snd (get_all_tools_loop cap lister 1 [])) = concat (map (\<lambda>p. snd (lister p)) pages))
   \<and> length (snd (snd (get_all_tools_from_category env category_url))) \<le> MAX_PAGES_PER_CATEGORY
   \<and> snd (snd (get_all_tools_from_category env category_url)) \<noteq> []"
proof -
  note g = loop_pages [of cap lister 1 "[]", unfolded Let_def]
  note h = loop_pages [of MAX_PAGES_PER_CATEGORY "list_page_tools env category_url" 1 "[]",
      unfolded Let_def]
  have a: "length (snd (snd (get_all_tools_from_category env category_url))) \<le> MAX_PAGES_PER_CATEGORY"
    using h unfolding get_all_tools_from_category_def by simp
  have b: "snd (snd (get_all_tools_from_category env category_url)) \<noteq> []"
    using h unfolding get_all_tools_from_category_def by (simp add: MAX_PAGES_PER_CATEGORY_def)
  show ?thesis unfolding Let_def using g a b by simp
qed

lemma loop3: "snd (snd (get_all_tools_loop 3 lister_always 1 [])) = [1, 2, 3]"
  by (simp add: get_all_tools_loop_alt lister_always_def)

theorem pagination_bounded_witness:
  "(1::nat) \<le> 3
   \<and> snd (snd (get_all_tools_loop 3 lister_always 1 [])) = [1, 2, 3]
   \<and> \<not> page_stops lister_always 1 \<and> \<not> page_stops lister_always 2"
  using pagination_bounded [of 3 lister_always env0 "''c''"] loop3
  by (simp add: Let_def)

subsection \<open>Listing pages through FetchFox\<close>

lemma list_page_tools_cards:
  assumes "fetchfox_api_key env \<noteq> []"
    and "fetchfox_post env (page_url category_url page) 0 = Inr data"
    and "truthy data" and "py_in ''cards'' data = Inr True"
    and "bind_err (subscript data ''cards'') (\<lambda>cards.
           bind_err (py_iter cards) (cards_tools env category_url)) = Inr tools"
  shows "list_page_tools env category_url page =
     (Inr (uniq_by_slug tools,
           (case fst (get env (page_url category_url page)) of
              Inl e \<Rightarrow> False
            | Inr body \<Rightarrow> soup_has_next env body)),
      FetchFoxPost (page_url category_url page) # snd (get env (page_url category_url page)))"
  using assms
  by (simp add: list_page_tools_def Let_def fetchfox_with_key bind_tr_alt lift_tr_def split: prod.splits sum.splits)

text \<open>
  C10. When FetchFox answers with the cards of a page, the listing makes one more GET of the
  same page URL and takes the next-page signal from its body; when that GET raises after
  its retries, the page has the cards and no next-page signal, nothing is raised, and the
  pagination loop stops at this page with its cards appended.
\<close>

theorem listing_get_failure_stops:
  "fetchfox_api_key env \<noteq> []
   \<and> fetchfox_post env (page_url category_url page) 0 = Inr data
   \<and> truthy data \<and> py_in ''cards'' data = Inr True
   \<and> bind_err (subscript data ''cards'') (\<lambda>cards.
         bind_err (py_iter cards) (cards_tools env category_url)) = Inr tools
   \<longrightarrow>
     snd (list_page_tools env category_url page)
       = FetchFoxPost (page_url category_url page) # snd (get env (page_url category_url page))
     \<and> (\<forall>body. fst (get env (page_url category_url page)) = Inr body \<longrightarrow>
          fst (list_page_tools env category_url page)
            = Inr (uniq_by_slug tools, soup_has_next env body))
     \<and> (\<forall>e. fst (get env (page_url category_url page)) = Inl e \<longrightarrow>
          fst (list_page_tools env category_url page) = Inr (uniq_by_slug tools, False)
          \<and> (page \<le> cap \<longrightarrow>
               get_all_tools_loop cap (list_page_tools env category_url) page all_tools
                 = (Inr (all_tools @ uniq_by_slug tools),
                    FetchFoxPost (page_url category_url page)
                      # snd (get env (page_url category_url page)),
                    [page])))"
proof (intro impI, elim conjE)
  assume a: "fetchfox_api_key env \<noteq> []"
    "fetchfox_post env (page_url category_url page) 0 = Inr data"
    "truthy data" "py_in ''cards'' data = Inr True"
    "bind_err (subscript data ''cards'') (\<lambda>cards.
         bind_err (py_iter cards) (cards_tools env category_url)) = Inr tools"
  note l = list_page_tools_cards [OF a]
  have "get_all_tools_loop cap (list_page_tools env category_url) page all_tools
      = (Inr (all_tools @ uniq_by_slug tools),
         FetchFoxPost (page_url category_url page) # snd (get env (page_url category_url page)),
         [page])"
    if "fst (get env (page_url category_url page)) = Inl e" "page \<le> cap" for e
    using that l
    by (simp add: get_all_tools_loop_alt [of cap "list_page_tools env category_url" page all_tools])
  then show "snd (list_page_tools env category_url page)
       = FetchFoxPost (page_url category_url page) # snd (get env (page_url category_url page))
     \<and> (\<forall>body. fst (get env (page_url category_url page)) = Inr body \<longrightarrow>
          fst (list_page_tools env category_url page)
            = Inr (uniq_by_slug tools, soup_has_next env body))
     \<and> (\<forall>e. fst (get env (page_url category_url page)) = Inl e \<longrightarrow>
          fst (list_page_tools env category_url page) = Inr (uniq_by_slug tools, False)
          \<and> (page \<le> cap \<longrightarrow>
               get_all_tools_loop cap (list_page_tools env category_url) page all_tools
                 = (Inr (all_tools @ uniq_by_slug tools),
                    FetchFoxPost (page_url category_url page)
                      # snd (get env (page_url category_url page)),
                    [page])))"
    using l by simp
qed

lemma cards_parse:
  "bind_err (subscript (JObj [(''cards'',
         JArr [JObj [(''href'', JStr ''/tool/a''), (''name'', JStr '' A '')]])]) ''cards'') (\<lambda>cards.
         bind_err (py_iter cards) (cards_tools env_cards ''https://www.futurepedia.io/ai-tools/code-assistant'')) = Inr [tool_a]"
  by (simp add: bind_err_def card_tool_def get_stripped_def py_or_def strip_def lstrip_def
      rstrip_def is_space_def env_cards_def env0_def last_segment_def rstrip_chars_def
      extract_category_name_def tool_a_def)

lemma get_fails: "get env_cards u = (Inl RequestError, [HttpGet u, Backoff 2000, HttpGet u, Backoff 4000, HttpGet u])"
  by (simp add: get_unfold env_cards_def env0_def)

lemma uniq_a: "uniq_by_slug [tool_a] = [tool_a]"
  by (simp add: uniq_by_slug_def)

theorem listing_get_failure_stops_witness:
  "fetchfox_api_key env_cards \<noteq> []
   \<and> get_all_tools_from_category env_cards ''https://www.futurepedia.io/ai-tools/code-assistant''
      = (Inr [tool_a],
         [FetchFoxPost ''https://www.futurepedia.io/ai-tools/code-assistant'',
          HttpGet ''https://www.futurepedia.io/ai-tools/code-assistant'', Backoff 2000,
          HttpGet ''https://www.futurepedia.io/ai-tools/code-assistant'', Backoff 4000,
          HttpGet ''https://www.futurepedia.io/ai-tools/code-assistant''],
         [1])"
proof -
  let ?u = "''https://www.futurepedia.io/ai-tools/code-assistant''"
  let ?d = "JObj [(''cards'', JArr [JObj [(''href'', JStr ''/tool/a''), (''name'', JStr '' A '')]])]"
  have k: "fetchfox_api_key env_cards \<noteq> []" by (simp add: env_cards_def)
  have p: "fetchfox_post env_cards (page_url ?u 1) 0 = Inr ?d" by (simp add: env_cards_def)
  have t: "truthy ?d" "py_in ''cards'' ?d = Inr True" by simp_all
  have u: "page_url ?u 1 = ?u" by (simp add: page_url_def)
  from listing_get_failure_stops [of env_cards ?u 1 ?d "[tool_a]" MAX_PAGES_PER_CATEGORY "[]"]
    k p t cards_parse get_fails [of ?u] u
  have "get_all_tools_loop MAX_PAGES_PER_CATEGORY (list_page_tools env_cards ?u) 1 []
     = (Inr ([] @ uniq_by_slug [tool_a]),
        FetchFoxPost ?u # snd (get env_cards ?u), [1])"
    by (simp add: MAX_PAGES_PER_CATEGORY_def)
  then show ?thesis using k get_fails [of ?u] uniq_a
    by (simp add: get_all_tools_from_category_def)
qed

subsection \<open>Tool enrichment\<close>

lemma fst_bind_tr_Inr:
  "fst (bind_tr m f) = Inr r \<Longrightarrow> \<exists>x. fst m = Inr x \<and> fst (f x) = Inr r"
  by (auto simp: bind_tr_alt split: sum.splits)

lemma dict_update_obj_other:
  "k \<notin> fst ` set kvs \<Longrightarrow> map_of (dict_update_obj d kvs) k = map_of d k"
  unfolding dict_update_obj_def
  by (induction kvs arbitrary: d) (auto simp: update_conv')

lemma dict_update_obj_key:
  "distinct (map fst kvs) \<Longrightarrow> map_of kvs k = Some v \<Longrightarrow> map_of (dict_update_obj d kvs) k = Some v"
proof (induction kvs arbitrary: d)
  case Nil
  then show ?case by simp
next
  case (Cons kv kvs)
  have step: "dict_update_obj d (kv # kvs) = dict_update_obj (AList.update (fst kv) (snd kv) d) kvs"
    by (simp add: dict_update_obj_def)
  show ?case
  proof (cases "k = fst kv")
    case True
    then have "v = snd kv" using Cons.prems(2) by (cases kv) simp
    moreover have "k \<notin> fst ` set kvs" using True Cons.prems(1) by auto
    ultimately show ?thesis
      using True step dict_update_obj_other [of k kvs "AList.update (fst kv) (snd kv) d"]
      by (simp add: update_conv')
  next
    case False
    then have "map_of kvs k = Some v" using Cons.prems(2) by (cases kv) (simp split: if_splits)
    moreover have "distinct (map fst kvs)" using Cons.prems(1) by simp
    ultimately show ?thesis using Cons.IH step by simp
  qed
qed

lemma translate_dict_distinct:
  assumes "distinct (map fst pack)"
    and "\<forall>text v. json_loads env text = Some v \<longrightarrow> distinct_keys v"
  shows "distinct_keys (fst (translate_dict env pack lang))"
  using assms
  by (auto simp: translate_dict_def passthrough_def comp_def split: sum.splits option.splits)

lemma translate_into_other:
  assumes "fst (translate_into env pack cat lang data) = Inr data'" and "l \<noteq> lang"
  shows "map_of (translations_of data') l = map_of (translations_of data) l"
  using assms
  by (auto simp: translate_into_alt Let_def bind_err_def update_conv'
      split: sum.splits option.splits if_splits)

lemma translate_into_category:
  assumes ok: "fst (translate_into env pack cat lang data) = Inr data'"
    and ct: "category_translation cat lang = Some c" and c: "c \<noteq> []"
    and dk: "distinct_keys (fst (translate_dict env pack lang))"
  shows "\<exists>e. map_of (translations_of data') lang = Some e
          \<and> map_of e ''category'' = Some (JStr c)"
proof -
  from ok ct c obtain translated e0 e where
    si: "set_item (fst (translate_dict env pack lang)) ''category'' (JStr c) = Inr translated"
    and e0: "map_of (translations_of data) lang = Some e0"
    and du: "dict_update env e0 translated = Inr e"
    and d': "data' = data \<lparr> translations_of := AList.update lang e (translations_of data) \<rparr>"
    by (auto simp: translate_into_alt Let_def bind_err_def split: sum.splits option.splits)
  from si obtain kvs where kvs: "fst (translate_dict env pack lang) = JObj kvs"
    and tr: "translated = JObj (AList.update ''category'' (JStr c) kvs)"
    by (cases "fst (translate_dict env pack lang)") auto
  have dist: "distinct (map fst (AList.update ''category'' (JStr c) kvs))"
    using dk kvs by (simp add: distinct_update)
  have "map_of (AList.update ''category'' (JStr c) kvs) ''category'' = Some (JStr c)"
    by (simp add: update_conv')
  with dist have "map_of (dict_update_obj e0 (AList.update ''category'' (JStr c) kvs)) ''category''
      = Some (JStr c)"
    by (rule dict_update_obj_key)
  moreover have "e = dict_update_obj e0 (AList.update ''category'' (JStr c) kvs)"
    using du tr by simp
  ultimately have "map_of e ''category'' = Some (JStr c)" by simp
  moreover have "map_of (translations_of data') lang = Some e"
    using d' by (simp add: update_conv')
  ultimately show ?thesis by blast
qed

lemma translate_all_other:
  assumes "fst (translate_all env pack cat langs data) = Inr data'" and "l \<notin> set langs"
  shows "map_of (translations_of data') l = map_of (translations_of data) l"
  using assms
proof (induction langs arbitrary: data)
  case Nil
  then show ?case by simp
next
  case (Cons lang langs)
  from Cons.prems(1) obtain d1 where
    d1: "fst (translate_into env pack cat lang data) = Inr d1"
    and rest: "fst (translate_all env pack cat langs d1) = Inr data'"
    using fst_bind_tr_Inr by fastforce
  have "map_of (translations_of d1) l = map_of (translations_of data) l"
    using translate_into_other [OF d1] Cons.prems(2) by simp
  moreover have "map_of (translations_of data') l = map_of (translations_of d1) l"
    using Cons.IH [OF rest] Cons.prems(2) by simp
  ultimately show ?case by simp
qed

lemma translate_all_top:
  assumes "fst (translate_all env pack cat langs data) = Inr data'"
  shows "slug data' = slug data"
  using assms
proof (induction langs arbitrary: data)
  case Nil
  then show ?case by simp
next
  case (Cons lang langs)
  from Cons.prems(1) obtain d1 where
    d1: "fst (translate_into env pack cat lang data) = Inr d1"
    and rest: "fst (translate_all env pack cat langs d1) = Inr data'"
    using fst_bind_tr_Inr by fastforce
  have "slug d1 = slug data" using d1
    by (auto simp: translate_into_alt Let_def bind_err_def split: sum.splits option.splits if_splits)
  then show ?case using Cons.IH [OF rest] by simp
qed

lemma translate_all_category:
  assumes "fst (translate_all env pack cat langs data) = Inr data'"
    and "lang \<in> set langs" and "distinct langs"
    and "category_translation cat lang = Some c" and "c \<noteq> []"
    and "distinct (map fst pack)"
    and "\<forall>text v. json_loads env text = Some v \<longrightarrow> distinct_keys v"
  shows "\<exists>e. map_of (translations_of data') lang = Some e
          \<and> map_of e ''category'' = Some (JStr c)"
  using assms(1-3)
proof (induction langs arbitrary: data)
  case Nil
  then show ?case by simp
next
  case (Cons l langs)
  from Cons.prems(1) obtain d1 where
    d1: "fst (translate_into env pack cat l data) = Inr d1"
    and rest: "fst (translate_all env pack cat langs d1) = Inr data'"
    using fst_bind_tr_Inr by fastforce
  show ?case
  proof (cases "l = lang")
    case True
    have "lang \<notin> set langs" using True Cons.prems(3) by simp
    then have keep: "map_of (translations_of data') lang = map_of (translations_of d1) lang"
      using translate_all_other [OF rest] by simp
    have "distinct_keys (fst (translate_dict env pack lang))"
      using translate_dict_distinct assms(6,7) by blast
    then show ?thesis
      using translate_into_category [OF d1 [unfolded True] assms(4,5)] keep by simp
  next
    case False
    then have "lang \<in> set langs" using Cons.prems(2) by simp
    moreover have "distinct langs" using Cons.prems(3) by simp
    ultimately show ?thesis using Cons.IH [OF rest] by blast
  qed
qed

lemma en_fields_keys:
  "map fst (en_fields tool_info detail) =
     [''title'', ''shortDescription'', ''longDescription'', ''tags'', ''pricingInfo'',
      ''category'', ''appType'']"
  by (simp add: en_fields_def Let_def)

lemma en_fields_category: "map_of (en_fields tool_info detail) ''category'' = Some (ti_category tool_info)"
  by (simp add: en_fields_def Let_def)

lemma build_record_en:
  assumes "fst (build_record env tool_info detail) = Inr r"
  shows "map_of (translations_of r) ''en''
     = Some (map (\<lambda>kv. (fst kv, JStr (snd kv))) (en_fields tool_info detail))"
proof -
  have "map_of (translations_of r) ''en'' = map_of (translations_of (base_record tool_info detail)) ''en''"
    using translate_all_other [OF assms [unfolded build_record_def], of "''en''"] by simp
  also have "\<dots> = Some (dict_update_obj empty_entry (map (\<lambda>kv. (fst kv, JStr (snd kv))) (en_fields tool_info detail)))"
    by (simp add: base_record_def Let_def update_conv')
  also have "dict_update_obj empty_entry (map (\<lambda>kv. (fst kv, JStr (snd kv))) (en_fields tool_info detail))
      = map (\<lambda>kv. (fst kv, JStr (snd kv))) (en_fields tool_info detail)"
    by (simp add: en_fields_def Let_def dict_update_obj_def empty_entry_def)
  finally show ?thesis .
qed

lemma build_record_category:
  assumes "fst (build_record env tool_info detail) = Inr r"
    and "category_translation (ti_category tool_info) lang = Some c" and "c \<noteq> []"
    and "lang \<in> set [''es'', ''pt'', ''fr'', ''de'']"
    and "\<forall>text v. json_loads env text = Some v \<longrightarrow> distinct_keys v"
  shows "\<exists>e. map_of (translations_of r) lang = Some e \<and> map_of e ''category'' = Some (JStr c)"
proof -
  have "distinct [''es'', ''pt'', ''fr'', ''de'']" by simp
  moreover have "distinct (map fst (en_fields tool_info detail))" by (simp add: en_fields_keys)
  ultimately show ?thesis
    using translate_all_category [OF assms(1) [unfolded build_record_def] assms(4)] assms(2,3,5)
    by blast
qed

lemma build_record_slug:
  assumes "fst (build_record env tool_info detail) = Inr r"
  shows "slug r = ti_slug tool_info"
  using translate_all_top [OF assms [unfolded build_record_def]]
  by (simp add: base_record_def Let_def)

lemma scrape_fresh:
  assumes "files (ti_slug tool_info) = None"
    and "fst (scrape_tool_details env files tool_info) = Inr r"
  shows "\<exists>d. fst (extract_detail env (ti_url tool_info)) = Inr d
          \<and> fst (build_record env tool_info d) = Inr r"
  using assms fst_bind_tr_Inr by (fastforce simp: scrape_tool_details_def)

text \<open>
  C5. For a tool whose slug has a record on disk, \<open>scrape_tool_details\<close> returns that
  record as it is and its trace of calls is empty: no FetchFox call, no GET, no
  translation call.
\<close>

theorem resume_returns_stored:
  "files (ti_slug tool_info) = Some (Record r) \<longrightarrow>
     scrape_tool_details env files tool_info = (Inr r, [])"
  by (simp add: scrape_tool_details_def)

theorem resume_returns_stored_witness:
  "[''a'' \<mapsto> Record stored_a] (ti_slug tool_a) = Some (Record stored_a)
   \<and> scrape_tool_details env_ff [''a'' \<mapsto> Record stored_a] tool_a = (Inr stored_a, [])"
proof -
  have "[''a'' \<mapsto> Record stored_a] (ti_slug tool_a) = Some (Record stored_a)"
    by (simp add: tool_a_def)
  then show ?thesis
    using resume_returns_stored [of "[''a'' \<mapsto> Record stored_a]" tool_a stored_a env_ff] by simp
qed

lemma cat_fr: "category_translation ''code-assistant'' ''fr'' = Some ''assistant-code''"
  by (simp add: category_translation_def CATEGORY_TRANSLATIONS_def)

text \<open>
  C7. For a tool that is enriched afresh and whose category is \<open>code-assistant\<close>, the
  category of the French entry of the record is \<open>assistant-code\<close>, whatever the
  translation call returned; more generally, for each of the four target languages, an entry
  of the category dictionary for the tool's category and the language is the category of
  that language's entry. The replies of the translator are decoded objects, no key twice.
\<close>

theorem category_override:
  "(\<forall>text v. json_loads env text = Some v \<longrightarrow> distinct_keys v)
   \<and> files (ti_slug tool_info) = None
   \<and> fst (scrape_tool_details env files tool_info) = Inr r
   \<longrightarrow>
     (ti_category tool_info = ''code-assistant'' \<longrightarrow>
        translated_field (scrape_tool_details env files tool_info) ''fr'' ''category''
          = Some (JStr ''assistant-code''))
     \<and> (\<forall>lang \<in> set [''es'', ''pt'', ''fr'', ''de'']. \<forall>c.
          category_translation (ti_category tool_info) lang = Some c \<and> c \<noteq> [] \<longrightarrow>
          translated_field (scrape_tool_details env files tool_info) lang ''category''
            = Some (JStr c))"
proof (intro impI, elim conjE)
  assume wf: "\<forall>text v. json_loads env text = Some v \<longrightarrow> distinct_keys v"
    and fresh: "files (ti_slug tool_info) = None"
    and ok: "fst (scrape_tool_details env files tool_info) = Inr r"
  from scrape_fresh [OF fresh ok] obtain d where
    b: "fst (build_record env tool_info d) = Inr r" by blast
  have gen: "translated_field (scrape_tool_details env files tool_info) lang ''category''
            = Some (JStr c)"
    if "lang \<in> set [''es'', ''pt'', ''fr'', ''de'']"
      and "category_translation (ti_category tool_info) lang = Some c" and "c \<noteq> []"
    for lang c
  proof -
    from build_record_category [OF b that(2,3,1) wf] obtain e where
      "map_of (translations_of r) lang = Some e" "map_of e ''category'' = Some (JStr c)"
      by blast
    then show ?thesis using ok by (simp add: translated_field_def)
  qed
  have "translated_field (scrape_tool_details env files tool_info) ''fr'' ''category''
          = Some (JStr ''assistant-code'')"
    if "ti_category tool_info = ''code-assistant''"
    using gen [of "''fr''" "''assistant-code''"] cat_fr that by simp
  then show "(ti_category tool_info = ''code-assistant'' \<longrightarrow>
        translated_field (scrape_tool_details env files tool_info) ''fr'' ''category''
          = Some (JStr ''assistant-code''))
     \<and> (\<forall>lang \<in> set [''es'', ''pt'', ''fr'', ''de'']. \<forall>c.
          category_translation (ti_category tool_info) lang = Some c \<and> c \<noteq> [] \<longrightarrow>
          translated_field (scrape_tool_details env files tool_info) lang ''category''
            = Some (JStr c))"
    using gen by blast
qed

lemma fr_reply:
  "fst (translate_dict env_fr pack ''fr'')
     = JObj [(''title'', JStr ''Acme Codeur''), (''category'', JStr ''outil de code'')]"
  by (simp add: env_fr_def env_detail_def env0_def translate_dict_def message_content_def
      chat_reply_def bind_err_def unfence_def strip_def lstrip_def rstrip_def strip_chars_def
      startswith_def is_space_def)

lemma fr_runs: "\<not> isl (fst (scrape_tool_details env_fr Map.empty tool_a))"
  by code_simp

lemma env_fr_wf: "\<forall>text v. json_loads env_fr text = Some v \<longrightarrow> distinct_keys v"
  by (simp add: env_fr_def)

theorem category_override_witness:
  "ti_category tool_a = ''code-assistant''
   \<and> fst (translate_dict env_fr [(''category'', ''code-assistant'')] ''fr'')
       = JObj [(''title'', JStr ''Acme Codeur''), (''category'', JStr ''outil de code'')]
   \<and> translated_field (scrape_tool_details env_fr Map.empty tool_a) ''fr'' ''category''
       = Some (JStr ''assistant-code'')"
proof -
  have c: "ti_category tool_a = ''code-assistant''" by (simp add: tool_a_def)
  have "fst (scrape_tool_details env_fr Map.empty tool_a)
      = Inr (projr (fst (scrape_tool_details env_fr Map.empty tool_a)))"
    using fr_runs by simp
  with category_override [of env_fr Map.empty tool_a
      "projr (fst (scrape_tool_details env_fr Map.empty tool_a))"] env_fr_wf c
  have "translated_field (scrape_tool_details env_fr Map.empty tool_a) ''fr'' ''category''
       = Some (JStr ''assistant-code'')"
    by simp
  then show ?thesis using c fr_reply by simp
qed

lemma b_short:
  "translated_field (scrape_tool_details env_detail Map.empty tool_b) ''en'' ''shortDescription''
     = Some (JStr ''Card text'')"
  by code_simp

text \<open>
  C9. As stated the claim fails for \<open>shortDescription\<close>: with an extracted description
  and a card that has a short description, the record's short description is the card's.
\<close>

theorem short_description_counterexample:
  "fst (extract_detail env_detail (ti_url tool_b))
     = Inr \<lparr> d_title = ''Acme Coder'', d_desc = ''Long meta description'', d_image = [],
             d_redirect = [], d_pricing = ''Information not available'', d_tags = [''code''] \<rparr>
   \<and> ti_short_description tool_b = ''Card text''
   \<and> translated_field (scrape_tool_details env_detail Map.empty tool_b) ''en'' ''shortDescription''
       = Some (JStr ''Card text'')"
proof -
  have "fst (extract_detail env_detail (ti_url tool_b))
     = Inr \<lparr> d_title = ''Acme Coder'', d_desc = ''Long meta description'', d_image = [],
             d_redirect = [], d_pricing = ''Information not available'', d_tags = [''code''] \<rparr>"
    by code_simp
  moreover have "ti_short_description tool_b = ''Card text''" by (simp add: tool_b_def)
  ultimately show ?thesis using b_short by simp
qed

text \<open>
  C9, amended. In a record built from a detail extraction, the title is the extracted title,
  or the card's name when that is empty; the long description is the extracted description,
  or the card's short description when that is empty, stripped; the short description is
  the card's short description, or, when that is empty, the first 180 characters of the
  extracted description followed by an ellipsis, stripped.
\<close>

theorem record_field_fallback:
  "files (ti_slug tool_info) = None
   \<and> fst (extract_detail env (ti_url tool_info)) = Inr d
   \<and> fst (scrape_tool_details env files tool_info) = Inr r
   \<longrightarrow>
     translated_field (scrape_tool_details env files tool_info) ''en'' ''title''
       = Some (JStr (if d_title d \<noteq> [] then d_title d else ti_name tool_info))
     \<and> translated_field (scrape_tool_details env files tool_info) ''en'' ''longDescription''
       = Some (JStr (strip (if d_desc d \<noteq> [] then d_desc d
                            else ti_short_description tool_info)))
     \<and> translated_field (scrape_tool_details env files tool_info) ''en'' ''shortDescription''
       = Some (JStr (strip (if ti_short_description tool_info \<noteq> []
                            then ti_short_description tool_info
                            else take 180 (d_desc d) @ ellipsis)))"
proof (intro impI, elim conjE)
  assume fresh: "files (ti_slug tool_info) = None"
    and d: "fst (extract_detail env (ti_url tool_info)) = Inr d"
    and ok: "fst (scrape_tool_details env files tool_info) = Inr r"
  from scrape_fresh [OF fresh ok] d have "fst (build_record env tool_info d) = Inr r" by simp
  then have en: "map_of (translations_of r) ''en''
     = Some (map (\<lambda>kv. (fst kv, JStr (snd kv))) (en_fields tool_info d))"
    by (rule build_record_en)
  have f: "translated_field (scrape_tool_details env files tool_info) ''en'' k
      = map_of (map (\<lambda>kv. (fst kv, JStr (snd kv))) (en_fields tool_info d)) k" for k
    using ok en by (simp add: translated_field_def)
  show "translated_field (scrape_tool_details env files tool_info) ''en'' ''title''
       = Some (JStr (if d_title d \<noteq> [] then d_title d else ti_name tool_info))
     \<and> translated_field (scrape_tool_details env files tool_info) ''en'' ''longDescription''
       = Some (JStr (strip (if d_desc d \<noteq> [] then d_desc d
                            else ti_short_description tool_info)))
     \<and> translated_field (scrape_tool_details env files tool_info) ''en'' ''shortDescription''
       = Some (JStr (strip (if ti_short_description tool_info \<noteq> []
                            then ti_short_description tool_info
                            else take 180 (d_desc d) @ ellipsis)))"
    unfolding f by (simp add: en_fields_def Let_def)
qed

lemma b_runs: "\<not> isl (fst (scrape_tool_details env_detail Map.empty tool_b))"
  by code_simp

theorem record_field_fallback_witness:
  "translated_field (scrape_tool_details env_detail Map.empty tool_b) ''en'' ''title''
       = Some (JStr ''Acme Coder'')
   \<and> translated_field (scrape_tool_details env_detail Map.empty tool_b) ''en'' ''longDescription''
       = Some (JStr ''Long meta description'')
   \<and> translated_field (scrape_tool_details env_detail Map.empty tool_b) ''en'' ''shortDescription''
       = Some (JStr ''Card text'')"
proof -
  let ?d = "\<lparr> d_title = ''Acme Coder'', d_desc = ''Long meta description'', d_image = [],
             d_redirect = [], d_pricing = ''Information not available'', d_tags = [''code''] \<rparr>"
  have d: "fst (extract_detail env_detail (ti_url tool_b)) = Inr ?d" by code_simp
  have r: "fst (scrape_tool_details env_detail Map.empty tool_b)
      = Inr (projr (fst (scrape_tool_details env_detail Map.empty tool_b)))"
    using b_runs by simp
  have s: "strip ''Long meta description'' = ''Long meta description''"
    "strip ''Card text'' = ''Card text''" by code_simp+
  from record_field_fallback [of Map.empty tool_b env_detail ?d
      "projr (fst (scrape_tool_details env_detail Map.empty tool_b))"] d r
  show ?thesis by (simp add: tool_b_def tool_a_def s)
qed

subsection \<open>A category end to end\<close>

text \<open>
  C1. A listing of five unseen tools, nothing on disk, the enrichment of the third raising.
  The run returns true and the four other records are on disk, but the CSV has eight rows:
  each of the four records is there twice, once as appended when its task completed and
  once more as read back from disk by the loop that was meant to add the records that
  existed already.
\<close>

theorem partial_batch_duplicate_rows:
  "outcome (scrape_category env_five store0 ''https://www.futurepedia.io/ai-tools/code-assistant'')
     [''t1'', ''t2'', ''t3'', ''t4'', ''t5''] ''code-assistant''
     = (Inr True,
        [True, True, False, True, True],
        Some [Some (JStr ''t1''), Some (JStr ''t2''), Some (JStr ''t4''), Some (JStr ''t5''),
              Some (JStr ''t1''), Some (JStr ''t2''), Some (JStr ''t4''), Some (JStr ''t5'')])"
  by code_simp

end
